theory Spec2Isabelle
  imports Main "HOL-Library.AList"
begin

section \<open>Decoded JSON values and the Python operations the code applies to them\<close>

text \<open>
  Every payload of \<^verbatim>\<open>kick/ws.py\<close> and \<^verbatim>\<open>kick/message.py\<close> is what
  \<^verbatim>\<open>json.loads\<close> returned: \<^verbatim>\<open>None\<close>, a bool, an int, a str, a list or a dict with
  string keys. A dict is an association list read with \<^const>\<open>map_of\<close> (first match) and
  written with \<^const>\<open>AList.update\<close> (in place, as a Python dict keeps the position of a key).
  Floating-point numbers are left out of the model; no field of \<^verbatim>\<open>kick/types/message.py\<close>
  is a float.
\<close>

datatype json =
    JNull
  | JBool bool
  | JInt int
  | JStr string
  | JArr "json list"
  | JObj "(string \<times> json) list"

text \<open>The exceptions the modelled code can raise.\<close>

datatype error = KeyError | TypeError | AttributeError | ValueError | JSONDecodeError

text \<open>\<^verbatim>\<open>bool(x)\<close>: Python truthiness.\<close>

fun py_bool :: "json \<Rightarrow> bool" where
  "py_bool JNull = False"
| "py_bool (JBool b) = b"
| "py_bool (JInt n) = (n \<noteq> 0)"
| "py_bool (JStr s) = (s \<noteq> [])"
| "py_bool (JArr xs) = (xs \<noteq> [])"
| "py_bool (JObj kvs) = (kvs \<noteq> [])"

text \<open>
  \<^verbatim>\<open>x["key"]\<close> with a string key: a dict raises \<^verbatim>\<open>KeyError\<close> on a missing key; a list or
  a str takes no string index, and \<^verbatim>\<open>None\<close>, bools and ints are not subscriptable
  (\<^verbatim>\<open>TypeError\<close>).
\<close>

fun getitem :: "json \<Rightarrow> string \<Rightarrow> error + json" where
  "getitem (JObj kvs) k = (case map_of kvs k of None \<Rightarrow> Inl KeyError | Some v \<Rightarrow> Inr v)"
| "getitem _ k = Inl TypeError"

text \<open>
  \<^verbatim>\<open>x.get("key")\<close>: \<^verbatim>\<open>None\<close> for a missing key of a dict; the other JSON values have
  no \<^verbatim>\<open>get\<close> attribute.
\<close>

fun dict_get :: "json \<Rightarrow> string \<Rightarrow> error + json" where
  "dict_get (JObj kvs) k = (case map_of kvs k of None \<Rightarrow> Inr JNull | Some v \<Rightarrow> Inr v)"
| "dict_get _ k = Inl AttributeError"

text \<open>\<^verbatim>\<open>x["key"] = v\<close> on a dict; any other JSON value supports no item assignment by a string.\<close>

fun setitem :: "json \<Rightarrow> string \<Rightarrow> json \<Rightarrow> error + json" where
  "setitem (JObj kvs) k v = Inr (JObj (AList.update k v kvs))"
| "setitem _ k v = Inl TypeError"

text \<open>
  \<^verbatim>\<open>x + n\<close> for an int \<^verbatim>\<open>n\<close> (and so \<^verbatim>\<open>x - n\<close> as \<^verbatim>\<open>x + (-n)\<close>): ints are
  unbounded, a bool counts as 0 or 1, every other JSON value raises \<^verbatim>\<open>TypeError\<close>.
\<close>

fun py_add :: "json \<Rightarrow> int \<Rightarrow> error + json" where
  "py_add (JInt m) n = Inr (JInt (m + n))"
| "py_add (JBool b) n = Inr (JInt ((if b then 1 else 0) + n))"
| "py_add _ n = Inl TypeError"

text \<open>Sequencing of steps that may raise: the first exception ends the computation.\<close>

fun bind :: "error + 'a \<Rightarrow> ('a \<Rightarrow> error + 'b) \<Rightarrow> error + 'b" where
  "bind (Inl e) f = Inl e"
| "bind (Inr x) f = f x"

text \<open>
  \<^verbatim>\<open>x == y\<close> between two decoded JSON values: \<^verbatim>\<open>True == 1\<close> and \<^verbatim>\<open>False == 0\<close> hold,
  lists are compared element by element, dicts key by key whatever the order of the keys.
\<close>

lemma map_of_size: "map_of kvs k = Some v \<Longrightarrow> size v < size (JObj kvs)"
  by (induction kvs) (auto split: if_splits)

function json_eq :: "json \<Rightarrow> json \<Rightarrow> bool" where
  "json_eq JNull y = (y = JNull)"
| "json_eq (JBool a) y =
     (case y of JBool b \<Rightarrow> a = b | JInt n \<Rightarrow> (if a then 1 else 0) = n | _ \<Rightarrow> False)"
| "json_eq (JInt m) y =
     (case y of JBool b \<Rightarrow> m = (if b then 1 else 0) | JInt n \<Rightarrow> m = n | _ \<Rightarrow> False)"
| "json_eq (JStr s) y = (y = JStr s)"
| "json_eq (JArr xs) y = (case y of JArr ys \<Rightarrow> list_all2 json_eq xs ys | _ \<Rightarrow> False)"
| "json_eq (JObj xs) y =
     (case y of
        JObj ys \<Rightarrow>
          (\<forall>k \<in> set (map fst xs) \<union> set (map fst ys).
             case map_of xs k of
               None \<Rightarrow> False
             | Some v \<Rightarrow> (case map_of ys k of None \<Rightarrow> False | Some w \<Rightarrow> json_eq v w))
      | _ \<Rightarrow> False)"
  by pat_completeness auto
termination
proof (relation "measure (\<lambda>(x, y). size x)")
  show "wf (measure (\<lambda>(x::json, y::json). size x))"
    by simp
next
  fix xs :: "json list" and y :: json and ys :: "json list" and z w :: json
  assume "z \<in> set xs"
  then have "size z < size (JArr xs)"
    by (induction xs) auto
  then show "((z, w), JArr xs, y) \<in> measure (\<lambda>(x, y). size x)"
    by simp
next
  fix xs ys :: "(string \<times> json) list" and y :: json and k :: string and v w :: json
  assume "map_of xs k = Some v"
  then have "size v < size (JObj xs)"
    by (rule map_of_size)
  then show "((v, w), JObj xs, y) \<in> measure (\<lambda>(x, y). size x)"
    by simp
qed

text \<open>\<^verbatim>\<open>str(n)\<close> of an int, as an f-string interpolates it: decimal, with a minus sign.\<close>

definition digit_char :: "nat \<Rightarrow> char" where
  "digit_char d = char_of (48 + d)"

fun digits :: "nat \<Rightarrow> string" where
  "digits n = (if n < 10 then [digit_char n] else digits (n div 10) @ [digit_char (n mod 10)])"

definition py_str :: "int \<Rightarrow> string" where
  "py_str i = (if i < 0 then CHR ''-'' # digits (nat (- i)) else digits (nat i))"

section \<open>The entity model of \<^verbatim>\<open>kick/message.py\<close>\<close>

text \<open>
  The classes of \<^verbatim>\<open>kick/message.py\<close> that define \<^verbatim>\<open>__eq__\<close> and an \<^verbatim>\<open>id\<close>.
\<close>

datatype cls =
    PartialAuthor
  | Author
  | PartialMessage
  | Message
  | MessageDeletedEventData
  | UserBannedEventData
  | UserUnbannedEventData

text \<open>
  Modelled from the spec: the base class \<^verbatim>\<open>HTTPDataclass\<close> (\<^verbatim>\<open>kick/object.py\<close>) is not among
  the sources. By the spec's section 3 every entity is a view over a raw payload plus a
  resolver handle, so an instance is its class together with \<^verbatim>\<open>self._data\<close>, the payload it
  was constructed over (\<^verbatim>\<open>Message(data=data, http=self.http)\<close>), and construction only
  stores the payload. The \<^verbatim>\<open>http\<close> handle is the same for every instance and is left out.
\<close>

record obj =
  cls :: cls
  data :: json

text \<open>\<^verbatim>\<open>class Author(PartialAuthor, ...)\<close> is the only inheritance between these classes.\<close>

definition issubclass :: "cls \<Rightarrow> cls \<Rightarrow> bool" where
  "issubclass c d = (c = d \<or> (c = Author \<and> d = PartialAuthor))"

definition isinstance :: "obj \<Rightarrow> cls \<Rightarrow> bool" where
  "isinstance x c = issubclass (cls x) c"

subsection \<open>\<^verbatim>\<open>PartialAuthor\<close> and \<^verbatim>\<open>Author\<close>\<close>

definition PartialAuthor_id :: "obj \<Rightarrow> error + json" where
  "PartialAuthor_id self = getitem (data self) ''id''"

definition PartialAuthor_slug :: "obj \<Rightarrow> error + json" where
  "PartialAuthor_slug self = getitem (data self) ''slug''"

definition PartialAuthor_username :: "obj \<Rightarrow> error + json" where
  "PartialAuthor_username self = getitem (data self) ''username''"

definition Author_color :: "obj \<Rightarrow> error + json" where
  "Author_color self = bind (getitem (data self) ''identity'') (\<lambda>i. getitem i ''color'')"

definition Author_badges :: "obj \<Rightarrow> error + json" where
  "Author_badges self = bind (getitem (data self) ''identity'') (\<lambda>i. getitem i ''badges'')"

subsection \<open>\<^verbatim>\<open>PartialMessage\<close>\<close>

definition PartialMessage_id :: "obj \<Rightarrow> error + json" where
  "PartialMessage_id self =
     bind (getitem (data self) ''original_message'') (\<lambda>m. getitem m ''id'')"

definition PartialMessage_content :: "obj \<Rightarrow> error + json" where
  "PartialMessage_content self =
     bind (getitem (data self) ''original_message'') (\<lambda>m. getitem m ''content'')"

subsection \<open>\<^verbatim>\<open>Message\<close>\<close>

definition Message_id :: "obj \<Rightarrow> error + json" where
  "Message_id self = getitem (data self) ''id''"

text \<open>\<^verbatim>\<open>return bool(self._data.get("metadata"))\<close>\<close>

definition Message_is_reply :: "obj \<Rightarrow> error + bool" where
  "Message_is_reply self = bind (dict_get (data self) ''metadata'') (\<lambda>m. Inr (py_bool m))"

text \<open>
  \<^verbatim>\<open>data = self._data.get("metadata"); if not data: return;
  return PartialMessage(data=data, http=self.http)\<close>. The bare \<^verbatim>\<open>return\<close> is \<^verbatim>\<open>None\<close>.
\<close>

definition Message_references :: "obj \<Rightarrow> error + obj option" where
  "Message_references self =
     bind (dict_get (data self) ''metadata'')
       (\<lambda>d. if \<not> py_bool d then Inr None else Inr (Some \<lparr>cls = PartialMessage, data = d\<rparr>))"

definition Message_chatroom_id :: "obj \<Rightarrow> error + json" where
  "Message_chatroom_id self = getitem (data self) ''chatroom_id''"

definition Message_content :: "obj \<Rightarrow> error + json" where
  "Message_content self = getitem (data self) ''content''"

text \<open>
  \<^verbatim>\<open>datetime.fromisoformat(self._data["created_at"])\<close>: the standard library's parser is a
  parameter, applied to whatever the payload holds under the key.
\<close>

definition Message_created_at :: "(json \<Rightarrow> error + 't) \<Rightarrow> obj \<Rightarrow> error + 't" where
  "Message_created_at fromisoformat self = bind (getitem (data self) ''created_at'') fromisoformat"

definition Message_author :: "obj \<Rightarrow> error + obj" where
  "Message_author self =
     bind (getitem (data self) ''sender'') (\<lambda>s. Inr \<lparr>cls = Author, data = s\<rparr>)"

subsection \<open>\<^verbatim>\<open>MessageDeletedEventData\<close>\<close>

definition MessageDeletedEventData_id :: "obj \<Rightarrow> error + json" where
  "MessageDeletedEventData_id self = getitem (data self) ''id''"

definition MessageDeletedEventData_message_id :: "obj \<Rightarrow> error + json" where
  "MessageDeletedEventData_message_id self =
     bind (getitem (data self) ''message'') (\<lambda>m. getitem m ''id'')"

definition MessageDeletedEventData_ai_moderated :: "obj \<Rightarrow> error + bool" where
  "MessageDeletedEventData_ai_moderated self =
     bind (dict_get (data self) ''aiModerated'') (\<lambda>v. Inr (py_bool v))"

definition MessageDeletedEventData_violated_rules :: "obj \<Rightarrow> error + json" where
  "MessageDeletedEventData_violated_rules self = dict_get (data self) ''violatedRules''"

subsection \<open>\<^verbatim>\<open>UserBannedEventData\<close> and \<^verbatim>\<open>UserUnbannedEventData\<close>\<close>

definition UserBannedEventData_id :: "obj \<Rightarrow> error + json" where
  "UserBannedEventData_id self = getitem (data self) ''id''"

definition UserBannedEventData_is_permanent :: "obj \<Rightarrow> error + bool" where
  "UserBannedEventData_is_permanent self =
     bind (dict_get (data self) ''permanent'') (\<lambda>v. Inr (py_bool v))"

definition UserBannedEventData_user :: "obj \<Rightarrow> error + obj" where
  "UserBannedEventData_user self =
     bind (getitem (data self) ''user'') (\<lambda>u. Inr \<lparr>cls = PartialAuthor, data = u\<rparr>)"

definition UserBannedEventData_banned_by :: "obj \<Rightarrow> error + obj" where
  "UserBannedEventData_banned_by self =
     bind (getitem (data self) ''banned_by'') (\<lambda>u. Inr \<lparr>cls = PartialAuthor, data = u\<rparr>)"

definition UserUnbannedEventData_id :: "obj \<Rightarrow> error + json" where
  "UserUnbannedEventData_id self = getitem (data self) ''id''"

definition UserUnbannedEventData_is_permanent :: "obj \<Rightarrow> error + bool" where
  "UserUnbannedEventData_is_permanent self =
     bind (dict_get (data self) ''permanent'') (\<lambda>v. Inr (py_bool v))"

definition UserUnbannedEventData_user :: "obj \<Rightarrow> error + obj" where
  "UserUnbannedEventData_user self =
     bind (getitem (data self) ''user'') (\<lambda>u. Inr \<lparr>cls = PartialAuthor, data = u\<rparr>)"

definition UserUnbannedEventData_unbanned_by :: "obj \<Rightarrow> error + obj" where
  "UserUnbannedEventData_unbanned_by self =
     bind (getitem (data self) ''unbanned_by'') (\<lambda>u. Inr \<lparr>cls = PartialAuthor, data = u\<rparr>)"

subsection \<open>Equality\<close>

text \<open>\<^verbatim>\<open>x.id\<close>: the property of the object's own class (\<^verbatim>\<open>Author\<close> inherits its parent's).\<close>

definition attr_id :: "obj \<Rightarrow> error + json" where
  "attr_id x =
     (case cls x of
        PartialAuthor \<Rightarrow> PartialAuthor_id x
      | Author \<Rightarrow> PartialAuthor_id x
      | PartialMessage \<Rightarrow> PartialMessage_id x
      | Message \<Rightarrow> Message_id x
      | MessageDeletedEventData \<Rightarrow> MessageDeletedEventData_id x
      | UserBannedEventData \<Rightarrow> UserBannedEventData_id x
      | UserUnbannedEventData \<Rightarrow> UserUnbannedEventData_id x)"

text \<open>
  Each of the classes has the same method,
  \<^verbatim>\<open>def __eq__(self, other): return isinstance(other, self.__class__) and other.id == self.id\<close>.
  The \<^verbatim>\<open>and\<close> short-circuits: no id is read when the class test fails.
\<close>

definition eq_method :: "obj \<Rightarrow> obj \<Rightarrow> error + bool" where
  "eq_method self other =
     (if isinstance other (cls self)
      then bind (attr_id other) (\<lambda>oid. bind (attr_id self) (\<lambda>sid. Inr (json_eq oid sid)))
      else Inr False)"

text \<open>
  The expression \<^verbatim>\<open>v == w\<close>. Python calls \<^verbatim>\<open>v.__eq__(w)\<close>, unless the class of \<^verbatim>\<open>w\<close> is a
  proper subclass of the class of \<^verbatim>\<open>v\<close>: then \<^verbatim>\<open>w.__eq__(v)\<close> has priority. The other
  operand's method is tried only after a \<^verbatim>\<open>NotImplemented\<close>, which \<^verbatim>\<open>__eq__\<close> above never
  returns.
\<close>

definition py_eq :: "obj \<Rightarrow> obj \<Rightarrow> error + bool" where
  "py_eq v w =
     (if cls w \<noteq> cls v \<and> issubclass (cls w) (cls v) then eq_method w v else eq_method v w)"

section \<open>Cached properties\<close>

text \<open>
  Modelled from the spec: \<^verbatim>\<open>cached_property\<close> is imported from \<^verbatim>\<open>kick/utils.py\<close>, which is
  not among the sources. By the spec's section 4.1, "a derived value is computed by a supplied
  function on first access and the result is stored and returned on every subsequent access,
  bypassing recomputation". An instance carries the stored values by attribute name; the
  counter \<open>evals\<close> is the counting stub of the spec's section 8: it records how often the
  supplied function of each attribute has been called. A call that raises has no result, so
  it stores nothing. The functions the source decorates with \<^verbatim>\<open>@cached_property\<close>
  (\<^verbatim>\<open>is_reply\<close>, \<^verbatim>\<open>references\<close>, \<^verbatim>\<open>created_at\<close>, \<^verbatim>\<open>author\<close>, \<^verbatim>\<open>ai_moderated\<close>,
  \<^verbatim>\<open>is_permanent\<close> and the others) are modelled above as the decorated functions
  themselves, which is what the first access evaluates.
\<close>

record ('k, 'v) entity =
  this :: obj
  stored :: "'k \<rightharpoonup> 'v"
  evals :: "'k \<Rightarrow> nat"

definition fresh :: "obj \<Rightarrow> ('k, 'v) entity" where
  "fresh x = \<lparr>this = x, stored = Map.empty, evals = (\<lambda>_. 0)\<rparr>"

definition cached_property ::
  "'k \<Rightarrow> (obj \<Rightarrow> error + 'v) \<Rightarrow> ('k, 'v) entity \<Rightarrow> (error + 'v) \<times> ('k, 'v) entity" where
  "cached_property name func inst =
     (case stored inst name of
        Some v \<Rightarrow> (Inr v, inst)
      | None \<Rightarrow>
          (let counted = inst\<lparr>evals := (evals inst)(name := Suc (evals inst name))\<rparr>
           in case func (this inst) of
                Inl e \<Rightarrow> (Inl e, counted)
              | Inr v \<Rightarrow> (Inr v, counted\<lparr>stored := (stored counted)(name \<mapsto> v)\<rparr>)))"

text \<open>A sequence of attribute accesses on one instance, with the result of each.\<close>

fun accesses ::
  "('k \<Rightarrow> obj \<Rightarrow> error + 'v) \<Rightarrow> 'k list \<Rightarrow> ('k, 'v) entity
     \<Rightarrow> (error + 'v) list \<times> ('k, 'v) entity" where
  "accesses props [] inst = ([], inst)"
| "accesses props (k # ks) inst =
     (case cached_property k (props k) inst of
        (r, inst') \<Rightarrow> (case accesses props ks inst' of (rs, inst'') \<Rightarrow> (r # rs, inst'')))"

text \<open>
  The four cached properties of \<^verbatim>\<open>Message\<close>, with the values they produce: a bool, an
  optional \<^verbatim>\<open>PartialMessage\<close>, a datetime, an \<^verbatim>\<open>Author\<close>.
\<close>

datatype message_property = is_reply | references | created_at | author

datatype 't message_value =
    Bool bool
  | Reference "obj option"
  | Datetime 't
  | Entity obj

fun Message_cached ::
  "(json \<Rightarrow> error + 't) \<Rightarrow> message_property \<Rightarrow> obj \<Rightarrow> error + 't message_value" where
  "Message_cached fromisoformat is_reply self = bind (Message_is_reply self) (\<lambda>b. Inr (Bool b))"
| "Message_cached fromisoformat references self =
     bind (Message_references self) (\<lambda>r. Inr (Reference r))"
| "Message_cached fromisoformat created_at self =
     bind (Message_created_at fromisoformat self) (\<lambda>t. Inr (Datetime t))"
| "Message_cached fromisoformat author self = bind (Message_author self) (\<lambda>a. Inr (Entity a))"

section \<open>The client and the transport\<close>

text \<open>
  Modelled from the spec: the client (\<^verbatim>\<open>self.http.client\<close>) is not among the sources. By the
  spec's section 6 its dispatch sink is "a named-event emission API accepting (name, ...args);
  no return value", and the resolver holds the tracked users by channel id. The model keeps
  the log of the dispatched notifications, oldest first, the dict \<^verbatim>\<open>_watched_users\<close> from
  channel ids to user objects, and a store holding the \<^verbatim>\<open>_data\<close> dict of each user object:
  a user is a reference into the store, so that the object a notification carries and the
  object the client tracks are one. A notification carries decoded JSON, an entity of the
  classes above, a \<^verbatim>\<open>PinnedMessage\<close> or a \<^verbatim>\<open>PartialLivestream\<close> built over a payload (the
  two classes define no \<^verbatim>\<open>__eq__\<close>; \<^verbatim>\<open>kick/livestream.py\<close> is not among the sources), or
  a tracked user.
\<close>

type_synonym ref = nat

datatype arg =
    Json json
  | Obj obj
  | PinnedMessage json
  | PartialLivestream json
  | User ref

record client =
  dispatched :: "(string \<times> arg list) list"
  watched_users :: "int \<rightharpoonup> ref"
  heap :: "ref \<Rightarrow> json"

definition dispatch :: "string \<Rightarrow> arg list \<Rightarrow> client \<Rightarrow> client" where
  "dispatch name args c = c\<lparr>dispatched := dispatched c @ [(name, args)]\<rparr>"

text \<open>
  \<^verbatim>\<open>self.http.client._watched_users[key]\<close> on a dict with int keys: \<^verbatim>\<open>True\<close> and \<^verbatim>\<open>False\<close>
  hash and compare as 1 and 0, a str or \<^verbatim>\<open>None\<close> is no key of it, a list or a dict is
  unhashable.
\<close>

fun watched_getitem :: "(int \<rightharpoonup> ref) \<Rightarrow> json \<Rightarrow> error + ref" where
  "watched_getitem m (JInt n) = (case m n of None \<Rightarrow> Inl KeyError | Some r \<Rightarrow> Inr r)"
| "watched_getitem m (JBool b) =
     (case m (if b then 1 else 0) of None \<Rightarrow> Inl KeyError | Some r \<Rightarrow> Inr r)"
| "watched_getitem m JNull = Inl KeyError"
| "watched_getitem m (JStr s) = Inl KeyError"
| "watched_getitem m (JArr xs) = Inl TypeError"
| "watched_getitem m (JObj kvs) = Inl TypeError"

text \<open>
  \<^verbatim>\<open>user._data["followers_count"] += n\<close>: read the item, add, store the sum under the same
  key of the same dict.
\<close>

definition iadd_followers_count :: "ref \<Rightarrow> int \<Rightarrow> client \<Rightarrow> error + client" where
  "iadd_followers_count user n c =
     bind (getitem (heap c user) ''followers_count'') (\<lambda>v.
     bind (py_add v n) (\<lambda>v'.
     bind (setitem (heap c user) ''followers_count'' v') (\<lambda>d.
     Inr (c\<lparr>heap := (heap c)(user := d)\<rparr>))))"

text \<open>
  Modelled from the spec: the transport (aiohttp's \<^verbatim>\<open>ClientWebSocketResponse\<close>) is consumed
  through \<^verbatim>\<open>receive()\<close>, \<^verbatim>\<open>send_json(frame)\<close> and \<^verbatim>\<open>closed\<close> (the spec's section 6). The
  model holds the text frames that arrive before the transport closes and the control frames
  sent so far; the transport is closed once every frame has been received, and a
  \<^verbatim>\<open>receive()\<close> on a closed transport yields the closed message, which has no text.
\<close>

datatype ws_message = Text string | Closed

record websocket =
  incoming :: "string list"
  sent :: "json list"

definition closed :: "websocket \<Rightarrow> bool" where
  "closed ws = (incoming ws = [])"

definition receive :: "websocket \<Rightarrow> ws_message \<times> websocket" where
  "receive ws =
     (case incoming ws of [] \<Rightarrow> (Closed, ws) | f # fs \<Rightarrow> (Text f, ws\<lparr>incoming := fs\<rparr>))"

definition send_json :: "json \<Rightarrow> websocket \<Rightarrow> websocket" where
  "send_json frame ws = ws\<lparr>sent := sent ws @ [frame]\<rparr>"

text \<open>
  The decoder \<^verbatim>\<open>json.loads\<close> of the standard library is a parameter \<open>loads\<close> of the read
  path. \<^verbatim>\<open>raw_msg.json()\<close> applies it to the text of the message, and \<^verbatim>\<open>json.loads(x)\<close>
  on a decoded value \<^verbatim>\<open>x\<close> wants a str.
\<close>

fun ws_message_json :: "(string \<Rightarrow> error + json) \<Rightarrow> ws_message \<Rightarrow> error + json" where
  "ws_message_json loads (Text s) = loads s"
| "ws_message_json loads Closed = Inl TypeError"

fun json_loads_of :: "(string \<Rightarrow> error + json) \<Rightarrow> json \<Rightarrow> error + json" where
  "json_loads_of loads (JStr s) = loads s"
| "json_loads_of loads _ = Inl TypeError"

section \<open>The dispatcher of \<^verbatim>\<open>kick/ws.py\<close>\<close>

text \<open>The event tags, as Python reads \<^verbatim>\<open>"App\\Events\\ChatMessageEvent"\<close>.\<close>

definition app_event :: "string \<Rightarrow> string" where
  "app_event name = ''App'' @ [CHR 0x5C] @ ''Events'' @ [CHR 0x5C] @ name"

text \<open>
  The \<^verbatim>\<open>FollowersUpdated\<close> case (lines 57 to 65). An exception leaves the client as it
  is: each step that may raise comes before the assignment to the counter.
\<close>

definition followers_updated :: "json \<Rightarrow> client \<Rightarrow> (error + unit) \<times> client" where
  "followers_updated payload c =
     (case bind (getitem payload ''channel_id'') (watched_getitem (watched_users c)) of
        Inl e \<Rightarrow> (Inl e, c)
      | Inr user \<Rightarrow>
          (case getitem payload ''followed'' of
             Inl e \<Rightarrow> (Inl e, c)
           | Inr followed \<Rightarrow>
               if followed = JBool True
               then (case iadd_followers_count user 1 c of
                       Inl e \<Rightarrow> (Inl e, c)
                     | Inr c' \<Rightarrow> (Inr (), dispatch ''follow'' [User user] c'))
               else (case iadd_followers_count user (- 1) c of
                       Inl e \<Rightarrow> (Inl e, c)
                     | Inr c' \<Rightarrow> (Inr (), dispatch ''unfollow'' [User user] c'))))"

text \<open>
  The \<^verbatim>\<open>match raw_data["event"]\<close> statement (lines 35 to 65): a string literal pattern
  matches a subject equal to it, so only a str; no case matching is no error.
\<close>

definition match_event :: "json \<Rightarrow> json \<Rightarrow> client \<Rightarrow> (error + unit) \<times> client" where
  "match_event event payload c =
     (if event = JStr (app_event ''ChatMessageEvent'')
      then (Inr (), dispatch ''message'' [Obj \<lparr>cls = Message, data = payload\<rparr>] c)
      else if event = JStr (app_event ''MessageDeletedEvent'')
      then (Inr (),
            dispatch ''message_delete'' [Obj \<lparr>cls = MessageDeletedEventData, data = payload\<rparr>] c)
      else if event = JStr (app_event ''PinnedMessageCreatedEvent'')
      then (Inr (), dispatch ''pin_message'' [PinnedMessage payload] c)
      else if event = JStr (app_event ''PinnedMessageDeletedEvent'')
      then (Inr (), dispatch ''pinned_message_delete'' [] c)
      else if event = JStr (app_event ''UserBannedEvent'')
      then (Inr (), dispatch ''user_banned'' [Obj \<lparr>cls = UserBannedEventData, data = payload\<rparr>] c)
      else if event = JStr (app_event ''UserUnbannedEvent'')
      then (Inr (),
            dispatch ''user_unbanned'' [Obj \<lparr>cls = UserUnbannedEventData, data = payload\<rparr>] c)
      else if event = JStr (app_event ''StreamerIsLive'')
      then (Inr (), dispatch ''livestream_start'' [PartialLivestream payload] c)
      else if event = JStr (app_event ''FollowersUpdated'')
      then followers_updated payload c
      else (Inr (), c))"

text \<open>
  Lines 29 and 30: \<^verbatim>\<open>raw_data = raw_msg.json(); data = json.loads(raw_data["data"])\<close>, and
  the \<^verbatim>\<open>raw_data["event"]\<close> that line 32 evaluates before its call.
\<close>

definition decode ::
  "(string \<Rightarrow> error + json) \<Rightarrow> ws_message \<Rightarrow> error + (json \<times> json \<times> json)" where
  "decode loads raw_msg =
     bind (ws_message_json loads raw_msg) (\<lambda>raw_data.
     bind (getitem raw_data ''data'') (\<lambda>inner.
     bind (json_loads_of loads inner) (\<lambda>payload.
     bind (getitem raw_data ''event'') (\<lambda>event.
     Inr (raw_data, payload, event)))))"

definition poll_event ::
  "(string \<Rightarrow> error + json) \<Rightarrow> client \<Rightarrow> websocket \<Rightarrow> (error + unit) \<times> client \<times> websocket" where
  "poll_event loads c ws =
     (case receive ws of
        (raw_msg, ws') \<Rightarrow>
          (case decode loads raw_msg of
             Inl e \<Rightarrow> (Inl e, c, ws')
           | Inr (raw_data, payload, event) \<Rightarrow>
               (case match_event event payload
                       (dispatch ''raw_payload_receive'' [Json raw_data]
                         (dispatch ''payload_receive'' [Json event, Json payload] c)) of
                  (r, c') \<Rightarrow> (r, c', ws'))))"

text \<open>
  \<^verbatim>\<open>while not self.ws.closed: await self.poll_event()\<close>. There is no \<^verbatim>\<open>try\<close> in the file:
  an exception of \<^verbatim>\<open>poll_event\<close> is the exception of \<^verbatim>\<open>start\<close>.
\<close>

lemma poll_event_incoming:
  "poll_event loads c ws = (r, c', ws') \<Longrightarrow> incoming ws' = tl (incoming ws)"
  by (auto simp: poll_event_def receive_def split: list.splits sum.splits prod.splits)

function start ::
  "(string \<Rightarrow> error + json) \<Rightarrow> client \<Rightarrow> websocket \<Rightarrow> (error + unit) \<times> client \<times> websocket" where
  "start loads c ws =
     (if closed ws then (Inr (), c, ws)
      else (case poll_event loads c ws of
              (Inl e, c', ws') \<Rightarrow> (Inl e, c', ws')
            | (Inr u, c', ws') \<Rightarrow> start loads c' ws'))"
  by pat_completeness auto
termination
proof (relation "measure (\<lambda>(loads, c, ws). length (incoming ws))")
  show "wf (measure (\<lambda>(loads :: string \<Rightarrow> error + json, c :: client, ws). length (incoming ws)))"
    by simp
next
  fix loads :: "string \<Rightarrow> error + json" and c c' :: client and ws ws' :: websocket
    and x :: "error + unit" and y :: "client \<times> websocket" and u :: unit
  assume "\<not> closed ws" and "(x, y) = poll_event loads c ws" and "(c', ws') = y"
  then have "incoming ws' = tl (incoming ws)" and "incoming ws \<noteq> []"
    using poll_event_incoming [of loads c ws x c' ws'] by (simp_all add: closed_def)
  then show "((loads, c', ws'), loads, c, ws)
      \<in> measure (\<lambda>(loads, c, ws). length (incoming ws))"
    by (cases "incoming ws") simp_all
qed

declare start.simps [simp del]

section \<open>The subscription manager of \<^verbatim>\<open>kick/ws.py\<close>\<close>

definition control_frame :: "string \<Rightarrow> string \<Rightarrow> json" where
  "control_frame event channel =
     JObj [(''event'', JStr event),
           (''data'', JObj [(''auth'', JStr []), (''channel'', JStr channel)])]"

definition subscribe_to_chatroom :: "int \<Rightarrow> websocket \<Rightarrow> websocket" where
  "subscribe_to_chatroom chatroom_id ws =
     send_json (control_frame ''pusher:subscribe'' (''chatrooms.'' @ py_str chatroom_id @ ''.v2'')) ws"

definition unsubscribe_to_chatroom :: "int \<Rightarrow> websocket \<Rightarrow> websocket" where
  "unsubscribe_to_chatroom chatroom_id ws =
     send_json (control_frame ''pusher:unsubscribe'' (''chatrooms.'' @ py_str chatroom_id @ ''.v2'')) ws"

definition watch_channel :: "int \<Rightarrow> websocket \<Rightarrow> websocket" where
  "watch_channel channel_id ws =
     send_json (control_frame ''pusher:subscribe'' (''channel.'' @ py_str channel_id)) ws"

definition unwatch_channel :: "int \<Rightarrow> websocket \<Rightarrow> websocket" where
  "unwatch_channel channel_id ws =
     send_json (control_frame ''pusher:subscribe'' (''channel.'' @ py_str channel_id)) ws"

section \<open>A decoder for frames as they are on the wire\<close>

text \<open>
  The read path above takes the decoder as a parameter, and what is proved of it holds for
  every decoder. To run it on the frames the spec writes out, \<open>json_loads\<close> decodes the JSON
  texts built from \<^verbatim>\<open>null\<close>, \<^verbatim>\<open>true\<close>, \<^verbatim>\<open>false\<close>, integers, strings in which only the
  double quote, the backslash and the slash are escaped, arrays and objects, with the result of \<^verbatim>\<open>json.loads\<close>; on every
  other text it answers \<^verbatim>\<open>JSONDecodeError\<close>. It is only applied to texts that
  \<^verbatim>\<open>json.loads\<close> decodes to the same value or rejects as well. The first argument of the
  three parsing functions bounds the nesting and the number of items.
\<close>

definition is_ws :: "char \<Rightarrow> bool" where
  "is_ws c = (c = CHR '' '' \<or> c = CHR 0x09 \<or> c = CHR 0x0A \<or> c = CHR 0x0D)"

definition skip_ws :: "string \<Rightarrow> string" where
  "skip_ws s = dropWhile is_ws s"

definition is_digit :: "char \<Rightarrow> bool" where
  "is_digit c = (c \<in> set ''0123456789'')"

fun scan_string :: "string \<Rightarrow> string \<Rightarrow> (string \<times> string) option" where
  "scan_string acc [] = None"
| "scan_string acc (c # cs) =
     (if c = CHR 0x22 then Some (rev acc, cs)
      else if c = CHR 0x5C
      then (case cs of
              [] \<Rightarrow> None
            | e # cs' \<Rightarrow>
                if e = CHR 0x22 \<or> e = CHR 0x5C \<or> e = CHR ''/''
                then scan_string (e # acc) cs' else None)
      else if (of_char c :: nat) < 32 then None
      else scan_string (c # acc) cs)"

definition scan_int :: "string \<Rightarrow> (json \<times> string) option" where
  "scan_int s =
     (let neg = (s \<noteq> [] \<and> hd s = CHR ''-'');
          r = (if neg then tl s else s);
          ds = takeWhile is_digit r;
          rest = dropWhile is_digit r;
          n = int (foldl (\<lambda>a d. 10 * a + (of_char d - 48)) (0::nat) ds)
      in if ds = [] \<or> (1 < length ds \<and> hd ds = CHR ''0'') then None
         else if rest \<noteq> [] \<and> (hd rest = CHR ''.'' \<or> hd rest = CHR ''e'' \<or> hd rest = CHR ''E'')
         then None
         else Some (JInt (if neg then - n else n), rest))"

definition dict_of :: "(string \<times> json) list \<Rightarrow> json" where
  "dict_of kvs = JObj (foldl (\<lambda>d (k, v). AList.update k v d) [] kvs)"

fun parse_value :: "nat \<Rightarrow> string \<Rightarrow> (json \<times> string) option"
  and parse_elements :: "nat \<Rightarrow> string \<Rightarrow> (json list \<times> string) option"
  and parse_members :: "nat \<Rightarrow> string \<Rightarrow> ((string \<times> json) list \<times> string) option" where
  "parse_value 0 s = None"
| "parse_value (Suc n) s =
     (case skip_ws s of
        [] \<Rightarrow> None
      | c # cs \<Rightarrow>
          if c = CHR 0x22
          then (case scan_string [] cs of None \<Rightarrow> None | Some (t, r) \<Rightarrow> Some (JStr t, r))
          else if c = CHR ''[''
          then (case skip_ws cs of
                  [] \<Rightarrow> None
                | d # ds \<Rightarrow>
                    if d = CHR '']'' then Some (JArr [], ds)
                    else (case parse_elements n cs of
                            None \<Rightarrow> None
                          | Some (vs, r) \<Rightarrow> Some (JArr vs, r)))
          else if c = CHR ''{''
          then (case skip_ws cs of
                  [] \<Rightarrow> None
                | d # ds \<Rightarrow>
                    if d = CHR ''}'' then Some (JObj [], ds)
                    else (case parse_members n cs of
                            None \<Rightarrow> None
                          | Some (kvs, r) \<Rightarrow> Some (dict_of kvs, r)))
          else if take 4 (c # cs) = ''true'' then Some (JBool True, drop 3 cs)
          else if take 5 (c # cs) = ''false'' then Some (JBool False, drop 4 cs)
          else if take 4 (c # cs) = ''null'' then Some (JNull, drop 3 cs)
          else scan_int (c # cs))"
| "parse_elements 0 s = None"
| "parse_elements (Suc n) s =
     (case parse_value n s of
        None \<Rightarrow> None
      | Some (v, r) \<Rightarrow>
          (case skip_ws r of
             [] \<Rightarrow> None
           | d # ds \<Rightarrow>
               if d = CHR '']'' then Some ([v], ds)
               else if d = CHR '',''
               then (case parse_elements n ds of
                       None \<Rightarrow> None
                     | Some (vs, r') \<Rightarrow> Some (v # vs, r'))
               else None))"
| "parse_members 0 s = None"
| "parse_members (Suc n) s =
     (case skip_ws s of
        [] \<Rightarrow> None
      | q # qs \<Rightarrow>
          if q \<noteq> CHR 0x22 then None
          else (case scan_string [] qs of
                  None \<Rightarrow> None
                | Some (k, r) \<Rightarrow>
                    (case skip_ws r of
                       [] \<Rightarrow> None
                     | colon # r1 \<Rightarrow>
                         if colon \<noteq> CHR '':'' then None
                         else (case parse_value n r1 of
                                 None \<Rightarrow> None
                               | Some (v, r2) \<Rightarrow>
                                   (case skip_ws r2 of
                                      [] \<Rightarrow> None
                                    | d # ds \<Rightarrow>
                                        if d = CHR ''}'' then Some ([(k, v)], ds)
                                        else if d = CHR '',''
                                        then (case parse_members n ds of
                                                None \<Rightarrow> None
                                              | Some (kvs, r') \<Rightarrow> Some ((k, v) # kvs, r'))
                                        else None)))))"

definition json_loads :: "string \<Rightarrow> error + json" where
  "json_loads s =
     (case parse_value (Suc (length s)) s of
        None \<Rightarrow> Inl JSONDecodeError
      | Some (v, r) \<Rightarrow> if skip_ws r = [] then Inr v else Inl JSONDecodeError)"

text \<open>
  The frame on the wire for an event tag and the text of an inner JSON document: the outer
  object with the string fields \<^verbatim>\<open>event\<close> and \<^verbatim>\<open>data\<close>, the inner text JSON-encoded as a
  string.
\<close>

definition quoted :: "string \<Rightarrow> string" where
  "quoted s =
     CHR 0x22 #
     concat (map (\<lambda>c. if c = CHR 0x22 \<or> c = CHR 0x5C then [CHR 0x5C, c] else [c]) s) @
     [CHR 0x22]"

definition envelope :: "string \<Rightarrow> string \<Rightarrow> string" where
  \<open>envelope event inner = ''{"event":'' @ quoted event @ '',"data":'' @ quoted inner @ ''}''\<close>

text \<open>
  A client that has dispatched nothing and tracks one user, under the channel id 5, whose
  \<^verbatim>\<open>followers_count\<close> is \<open>n\<close>; a transport with the given frames to deliver.
\<close>

definition tracking :: "int \<Rightarrow> client" where
  "tracking n =
     \<lparr>dispatched = [],
      watched_users = [5 \<mapsto> 0],
      heap = (\<lambda>_. JNull)(0 := JObj [(''id'', JInt 77), (''followers_count'', JInt n)])\<rparr>"

definition delivering :: "string list \<Rightarrow> websocket" where
  "delivering frames = \<lparr>incoming = frames, sent = []\<rparr>"

section \<open>Properties of the Python operations\<close>

declare digits.simps [simp del]

lemma json_eq_refl: "json_eq x x"
proof (induction x)
  case (JArr xs)
  then show ?case by (simp add: list_all2_same)
next
  case (JObj kvs)
  have "json_eq v v" if "map_of kvs k = Some v" for k v
    using JObj [of "(k, v)" v] map_of_SomeD [OF that] by simp
  moreover have "\<exists>v. map_of kvs k = Some v" if "k \<in> fst ` set kvs" for k
    using that by (cases "map_of kvs k") (auto simp: map_of_eq_None_iff)
  ultimately show ?case
    by (auto split: option.splits)
qed simp_all

lemma json_eq_sym: "json_eq x y \<Longrightarrow> json_eq y x"
proof (induction x y rule: json_eq.induct)
  case (5 xs y)
  then show ?case
    by (auto split: json.splits simp: list_all2_conv_all_nth)
next
  case (6 xs y)
  from "6.prems" obtain ys where y: "y = JObj ys"
    by (cases y) simp_all
  let ?K = "set (map fst xs) \<union> set (map fst ys)"
  from "6.prems" have all: "\<forall>k \<in> ?K.
      case map_of xs k of None \<Rightarrow> False
      | Some v \<Rightarrow> (case map_of ys k of None \<Rightarrow> False | Some w \<Rightarrow> json_eq v w)"
    unfolding y by simp
  have "case map_of ys k of None \<Rightarrow> False
      | Some w \<Rightarrow> (case map_of xs k of None \<Rightarrow> False | Some v \<Rightarrow> json_eq w v)"
    if k: "k \<in> ?K" for k
  proof -
    from all k have c: "case map_of xs k of None \<Rightarrow> False
      | Some v \<Rightarrow> (case map_of ys k of None \<Rightarrow> False | Some w \<Rightarrow> json_eq v w)"
      by (rule bspec)
    then obtain v where v: "map_of xs k = Some v"
      by (cases "map_of xs k") simp_all
    with c obtain w where w: "map_of ys k = Some w"
      by (cases "map_of ys k") simp_all
    from c v w have "json_eq v w"
      by simp
    with "6.IH" [OF y k v w] have "json_eq w v" .
    with v w show ?thesis
      by simp
  qed
  then show ?case
    unfolding y by (simp add: Un_commute)
qed (simp_all split: json.splits)

lemma json_eq_commute: "json_eq x y = json_eq y x"
  using json_eq_sym by blast

lemma getitem_Inr_dict: "getitem d k = Inr v \<Longrightarrow> \<exists>kvs. d = JObj kvs \<and> map_of kvs k = Some v"
  by (cases d) (auto split: option.splits)

section \<open>The subscription manager: claim C7\<close>

lemma unwatch_channel_frame:
  "unwatch_channel channel_id ws = watch_channel channel_id ws"
  by (simp add: unwatch_channel_def watch_channel_def)

lemma unsubscribe_to_chatroom_frame:
  "sent (unsubscribe_to_chatroom chatroom_id ws) =
     sent ws @ [control_frame ''pusher:unsubscribe'' (''chatrooms.'' @ py_str chatroom_id @ ''.v2'')]"
  by (simp add: unsubscribe_to_chatroom_def send_json_def)

text \<open>
  Claim C7 says that \<^verbatim>\<open>unwatch_channel\<close> sends a control frame whose event is
  \<^verbatim>\<open>pusher:unsubscribe\<close> for the topic \<^verbatim>\<open>channel.<id>\<close>. The code does not: for the channel
  id 5 the frame it sends has the event \<^verbatim>\<open>pusher:subscribe\<close>, the very frame
  \<^verbatim>\<open>watch_channel\<close> sends, while the sibling \<^verbatim>\<open>unsubscribe_to_chatroom\<close> does send
  \<^verbatim>\<open>pusher:unsubscribe\<close>.
\<close>

theorem unwatch_channel_sends_subscribe:
  "sent (unwatch_channel 5 ws) =
     sent ws @
     [JObj [(''event'', JStr ''pusher:subscribe''),
            (''data'', JObj [(''auth'', JStr []), (''channel'', JStr ''channel.5'')])]]"
proof -
  have "py_str 5 = ''5''"
    by code_simp
  then show ?thesis
    by (simp add: unwatch_channel_def send_json_def control_frame_def)
qed

section \<open>Accessors of optional keys: claim C10\<close>

text \<open>
  Claim C10: on a payload (a dict) without the key \<^verbatim>\<open>permanent\<close>, \<^verbatim>\<open>is_permanent\<close> of
  \<^verbatim>\<open>UserBannedEventData\<close> and of \<^verbatim>\<open>UserUnbannedEventData\<close> returns \<^verbatim>\<open>False\<close>; without the key
  \<^verbatim>\<open>aiModerated\<close>, \<^verbatim>\<open>MessageDeletedEventData.ai_moderated\<close> returns \<^verbatim>\<open>False\<close>; without the
  key \<^verbatim>\<open>violatedRules\<close>, \<^verbatim>\<open>MessageDeletedEventData.violated_rules\<close> returns \<^verbatim>\<open>None\<close>. None
  of them raises.
\<close>

theorem optional_key_absent:
  assumes "data self = JObj kvs"
  shows "(map_of kvs ''permanent'' = None \<longrightarrow>
            UserBannedEventData_is_permanent self = Inr False \<and>
            UserUnbannedEventData_is_permanent self = Inr False) \<and>
         (map_of kvs ''aiModerated'' = None \<longrightarrow>
            MessageDeletedEventData_ai_moderated self = Inr False) \<and>
         (map_of kvs ''violatedRules'' = None \<longrightarrow>
            MessageDeletedEventData_violated_rules self = Inr JNull)"
  using assms
  by (simp add: UserBannedEventData_is_permanent_def UserUnbannedEventData_is_permanent_def
      MessageDeletedEventData_ai_moderated_def MessageDeletedEventData_violated_rules_def)

theorem optional_key_absent_witness:
  "UserBannedEventData_is_permanent
     \<lparr>cls = UserBannedEventData, data = JObj [(''id'', JStr ''e1'')]\<rparr> = Inr False \<and>
   UserUnbannedEventData_is_permanent
     \<lparr>cls = UserUnbannedEventData, data = JObj [(''id'', JStr ''e2'')]\<rparr> = Inr False \<and>
   MessageDeletedEventData_ai_moderated
     \<lparr>cls = MessageDeletedEventData, data = JObj [(''id'', JStr ''e3'')]\<rparr> = Inr False \<and>
   MessageDeletedEventData_violated_rules
     \<lparr>cls = MessageDeletedEventData, data = JObj [(''id'', JStr ''e3'')]\<rparr> = Inr JNull"
  using
    optional_key_absent
      [of "\<lparr>cls = UserBannedEventData, data = JObj [(''id'', JStr ''e1'')]\<rparr>"
          "[(''id'', JStr ''e1'')]"]
    optional_key_absent
      [of "\<lparr>cls = UserUnbannedEventData, data = JObj [(''id'', JStr ''e2'')]\<rparr>"
          "[(''id'', JStr ''e2'')]"]
    optional_key_absent
      [of "\<lparr>cls = MessageDeletedEventData, data = JObj [(''id'', JStr ''e3'')]\<rparr>"
          "[(''id'', JStr ''e3'')]"]
  by simp

section \<open>Replies: claim C4\<close>

lemma Message_is_reply_dict:
  "data self = JObj kvs \<Longrightarrow>
   Message_is_reply self =
     Inr (case map_of kvs ''metadata'' of None \<Rightarrow> False | Some m \<Rightarrow> py_bool m)"
  by (simp add: Message_is_reply_def split: option.splits)

lemma Message_references_dict:
  "data self = JObj kvs \<Longrightarrow>
   Message_references self =
     Inr (case map_of kvs ''metadata'' of
            None \<Rightarrow> None
          | Some m \<Rightarrow> if py_bool m then Some \<lparr>cls = PartialMessage, data = m\<rparr> else None)"
  by (simp add: Message_references_def split: option.splits)

text \<open>
  Claim C4: for every \<^verbatim>\<open>Message\<close> payload \<open>P\<close> (a dict), \<^verbatim>\<open>references\<close> is \<^verbatim>\<open>None\<close> iff
  \<^verbatim>\<open>is_reply\<close> is false, and otherwise \<^verbatim>\<open>references\<close> is a \<^verbatim>\<open>PartialMessage\<close> whose
  \<^verbatim>\<open>id\<close> is what \<^verbatim>\<open>P["metadata"]["original_message"]["id"]\<close> evaluates to. When \<open>P\<close> is
  typed as \<^verbatim>\<open>kick/types/message.py\<close> declares it (its \<^verbatim>\<open>metadata\<close>, when present, is a map;
  \<^verbatim>\<open>None\<close> is admitted too), \<^verbatim>\<open>is_reply\<close> is true iff \<^verbatim>\<open>metadata\<close> is present and is a
  non-empty map.
\<close>

theorem Message_reply_references:
  assumes "data self = JObj kvs"
  shows "((\<forall>m. map_of kvs ''metadata'' = Some m \<longrightarrow> m = JNull \<or> (\<exists>ms. m = JObj ms)) \<longrightarrow>
            Message_is_reply self =
              Inr (\<exists>ms. map_of kvs ''metadata'' = Some (JObj ms) \<and> ms \<noteq> [])) \<and>
         ((Message_references self = Inr None) = (Message_is_reply self = Inr False)) \<and>
         (Message_is_reply self = Inr True \<longrightarrow>
            (\<exists>r. Message_references self = Inr (Some r) \<and> cls r = PartialMessage \<and>
                 PartialMessage_id r =
                   bind (getitem (data self) ''metadata'') (\<lambda>m.
                   bind (getitem m ''original_message'') (\<lambda>om. getitem om ''id''))))"
proof (intro conjI impI)
  assume typed: "\<forall>m. map_of kvs ''metadata'' = Some m \<longrightarrow> m = JNull \<or> (\<exists>ms. m = JObj ms)"
  show "Message_is_reply self = Inr (\<exists>ms. map_of kvs ''metadata'' = Some (JObj ms) \<and> ms \<noteq> [])"
  proof (cases "map_of kvs ''metadata''")
    case None
    with assms show ?thesis
      by (simp add: Message_is_reply_dict)
  next
    case (Some m)
    with typed consider "m = JNull" | ms where "m = JObj ms"
      by blast
    then show ?thesis
    proof cases
      case 1
      with Some assms show ?thesis
        by (simp add: Message_is_reply_dict)
    next
      case 2
      with Some assms show ?thesis
        by (simp add: Message_is_reply_dict)
    qed
  qed
next
  show "(Message_references self = Inr None) = (Message_is_reply self = Inr False)"
    using assms
    by (simp add: Message_is_reply_dict Message_references_dict split: option.splits)
next
  assume reply: "Message_is_reply self = Inr True"
  with assms obtain m where m: "map_of kvs ''metadata'' = Some m" and truthy: "py_bool m"
    by (auto simp: Message_is_reply_dict split: option.splits)
  let ?r = "\<lparr>cls = PartialMessage, data = m\<rparr>"
  from assms m truthy have "Message_references self = Inr (Some ?r)"
    by (simp add: Message_references_dict)
  moreover have "cls ?r = PartialMessage"
    by simp
  moreover from assms m have "PartialMessage_id ?r =
      bind (getitem (data self) ''metadata'') (\<lambda>m.
      bind (getitem m ''original_message'') (\<lambda>om. getitem om ''id''))"
    by (simp add: PartialMessage_id_def)
  ultimately show "\<exists>r. Message_references self = Inr (Some r) \<and> cls r = PartialMessage \<and>
      PartialMessage_id r =
        bind (getitem (data self) ''metadata'') (\<lambda>m.
        bind (getitem m ''original_message'') (\<lambda>om. getitem om ''id''))"
    by blast
qed

theorem Message_reply_references_witness:
  "Message_is_reply
     \<lparr>cls = Message,
      data = JObj [(''id'', JStr ''2''), (''content'', JStr ''yes''),
                   (''metadata'',
                    JObj [(''original_sender'', JObj [(''id'', JInt 9), (''username'', JStr ''u'')]),
                          (''original_message'',
                           JObj [(''id'', JStr ''1''), (''content'', JStr ''hi'')])])]\<rparr>
     = Inr True \<and>
   (\<exists>r. Message_references
          \<lparr>cls = Message,
           data = JObj [(''id'', JStr ''2''), (''content'', JStr ''yes''),
                        (''metadata'',
                         JObj [(''original_sender'',
                                JObj [(''id'', JInt 9), (''username'', JStr ''u'')]),
                               (''original_message'',
                                JObj [(''id'', JStr ''1''), (''content'', JStr ''hi'')])])]\<rparr>
          = Inr (Some r) \<and>
        cls r = PartialMessage \<and> PartialMessage_id r = Inr (JStr ''1'')) \<and>
   Message_is_reply \<lparr>cls = Message, data = JObj [(''id'', JStr ''1''), (''metadata'', JObj [])]\<rparr>
     = Inr False \<and>
   Message_references \<lparr>cls = Message, data = JObj [(''id'', JStr ''1''), (''metadata'', JObj [])]\<rparr>
     = Inr None"
  using
    Message_reply_references
      [of "\<lparr>cls = Message,
            data = JObj [(''id'', JStr ''2''), (''content'', JStr ''yes''),
                   (''metadata'',
                    JObj [(''original_sender'', JObj [(''id'', JInt 9), (''username'', JStr ''u'')]),
                          (''original_message'',
                           JObj [(''id'', JStr ''1''), (''content'', JStr ''hi'')])])]\<rparr>"
          "[(''id'', JStr ''2''), (''content'', JStr ''yes''),
            (''metadata'',
             JObj [(''original_sender'', JObj [(''id'', JInt 9), (''username'', JStr ''u'')]),
                   (''original_message'',
                    JObj [(''id'', JStr ''1''), (''content'', JStr ''hi'')])])]"]
    Message_reply_references
      [of "\<lparr>cls = Message, data = JObj [(''id'', JStr ''1''), (''metadata'', JObj [])]\<rparr>"
          "[(''id'', JStr ''1''), (''metadata'', JObj [])]"]
  by simp

section \<open>Equality of entities: claim C2\<close>

lemma eq_method_same_class:
  assumes "cls a = cls b" and "attr_id a = Inr i" and "attr_id b = Inr j"
  shows "eq_method a b = Inr (json_eq i j)"
  using assms by (simp add: eq_method_def isinstance_def issubclass_def json_eq_commute [of j i])

lemma py_eq_same_class:
  assumes "cls a = cls b" and "attr_id a = Inr i" and "attr_id b = Inr j"
  shows "py_eq a b = Inr (json_eq i j)"
  using eq_method_same_class [OF assms] assms(1) by (simp add: py_eq_def)

lemma py_eq_Author_PartialAuthor:
  assumes "cls a = Author" and "cls p = PartialAuthor"
  shows "py_eq a p = Inr False" and "py_eq p a = Inr False"
  using assms by (simp_all add: py_eq_def eq_method_def isinstance_def issubclass_def)

text \<open>
  Claim C2, as the code has it. Between two instances of one class, equality is decided by
  the ids alone, in both directions: \<^verbatim>\<open>a == b\<close> and \<^verbatim>\<open>b == a\<close> are the value of
  \<^verbatim>\<open>a.id == b.id\<close>, so two \<^verbatim>\<open>Author\<close> instances with equal id compare equal whatever the
  rest of their payloads. Across the hierarchy it is not: for an \<^verbatim>\<open>Author\<close> \<open>a\<close> and a plain
  \<^verbatim>\<open>PartialAuthor\<close> \<open>p\<close>, \<^verbatim>\<open>a == p\<close> and \<^verbatim>\<open>p == a\<close> are both \<^verbatim>\<open>False\<close> whatever the ids,
  since \<^verbatim>\<open>__eq__\<close> requires \<^verbatim>\<open>isinstance(other, self.__class__)\<close> and Python asks the operand
  of the subclass first.
\<close>

theorem entity_eq_by_id_within_class:
  "(cls a = cls b \<and> attr_id a = Inr i \<and> attr_id b = Inr j \<longrightarrow>
      py_eq a b = Inr (json_eq i j) \<and> py_eq b a = Inr (json_eq i j) \<and>
      (i = j \<longrightarrow> py_eq a b = Inr True \<and> py_eq b a = Inr True)) \<and>
   (cls x = Author \<and> cls p = PartialAuthor \<longrightarrow> py_eq x p = Inr False \<and> py_eq p x = Inr False)"
proof (intro conjI impI)
  assume h: "cls a = cls b \<and> attr_id a = Inr i \<and> attr_id b = Inr j"
  then show ab: "py_eq a b = Inr (json_eq i j)"
    by (simp add: py_eq_same_class)
  from h have "py_eq b a = Inr (json_eq j i)"
    by (simp add: py_eq_same_class)
  then show ba: "py_eq b a = Inr (json_eq i j)"
    by (simp add: json_eq_commute [of j i])
  assume "i = j"
  with ab ba show "py_eq a b = Inr True" and "py_eq b a = Inr True"
    by (simp_all add: json_eq_refl)
next
  assume "cls x = Author \<and> cls p = PartialAuthor"
  then show "py_eq x p = Inr False" and "py_eq p x = Inr False"
    by (simp_all add: py_eq_Author_PartialAuthor)
qed

theorem entity_eq_by_id_within_class_witness:
  "py_eq \<lparr>cls = Author, data = JObj [(''id'', JInt 9), (''slug'', JStr ''old-slug'')]\<rparr>
         \<lparr>cls = Author, data = JObj [(''id'', JInt 9), (''slug'', JStr ''new-slug'')]\<rparr>
     = Inr True \<and>
   py_eq \<lparr>cls = Author, data = JObj [(''id'', JInt 9), (''slug'', JStr ''new-slug'')]\<rparr>
         \<lparr>cls = Author, data = JObj [(''id'', JInt 9), (''slug'', JStr ''old-slug'')]\<rparr>
     = Inr True \<and>
   py_eq \<lparr>cls = Author, data = JObj [(''id'', JInt 9), (''slug'', JStr ''old-slug'')]\<rparr>
         \<lparr>cls = PartialAuthor, data = JObj [(''id'', JInt 9), (''slug'', JStr ''old-slug'')]\<rparr>
     = Inr False"
  using entity_eq_by_id_within_class
    [of "\<lparr>cls = Author, data = JObj [(''id'', JInt 9), (''slug'', JStr ''old-slug'')]\<rparr>"
        "\<lparr>cls = Author, data = JObj [(''id'', JInt 9), (''slug'', JStr ''new-slug'')]\<rparr>"
        "JInt 9" "JInt 9"
        "\<lparr>cls = Author, data = JObj [(''id'', JInt 9), (''slug'', JStr ''old-slug'')]\<rparr>"
        "\<lparr>cls = PartialAuthor, data = JObj [(''id'', JInt 9), (''slug'', JStr ''old-slug'')]\<rparr>"]
  by (simp add: attr_id_def PartialAuthor_id_def)

text \<open>
  Claim C2 as stated fails: an \<^verbatim>\<open>Author\<close> and a \<^verbatim>\<open>PartialAuthor\<close> built over the same sender,
  id 9, are unequal in both directions.
\<close>

theorem Author_PartialAuthor_equal_id_unequal:
  "py_eq \<lparr>cls = Author,
          data = JObj [(''id'', JInt 9), (''username'', JStr ''u''), (''slug'', JStr ''u''),
                       (''identity'', JObj [(''color'', JStr ''#fff''), (''badges'', JArr [])])]\<rparr>
         \<lparr>cls = PartialAuthor,
          data = JObj [(''id'', JInt 9), (''username'', JStr ''u''), (''slug'', JStr ''u'')]\<rparr>
     = Inr False \<and>
   py_eq \<lparr>cls = PartialAuthor,
          data = JObj [(''id'', JInt 9), (''username'', JStr ''u''), (''slug'', JStr ''u'')]\<rparr>
         \<lparr>cls = Author,
          data = JObj [(''id'', JInt 9), (''username'', JStr ''u''), (''slug'', JStr ''u''),
                       (''identity'', JObj [(''color'', JStr ''#fff''), (''badges'', JArr [])])]\<rparr>
     = Inr False \<and>
   PartialAuthor_id
     \<lparr>cls = Author,
      data = JObj [(''id'', JInt 9), (''username'', JStr ''u''), (''slug'', JStr ''u''),
                   (''identity'', JObj [(''color'', JStr ''#fff''), (''badges'', JArr [])])]\<rparr>
     = PartialAuthor_id
         \<lparr>cls = PartialAuthor,
          data = JObj [(''id'', JInt 9), (''username'', JStr ''u''), (''slug'', JStr ''u'')]\<rparr>"
  by (simp add: py_eq_def eq_method_def isinstance_def issubclass_def PartialAuthor_id_def)

section \<open>Cached properties: claim C8\<close>

lemma cached_property_this:
  "cached_property name func inst = (r, inst') \<Longrightarrow> this inst' = this inst"
  by (auto simp: cached_property_def Let_def split: option.splits sum.splits)

lemma cached_property_other:
  "cached_property name func inst = (r, inst') \<Longrightarrow> k \<noteq> name \<Longrightarrow>
   stored inst' k = stored inst k \<and> evals inst' k = evals inst k"
  by (auto simp: cached_property_def Let_def split: option.splits sum.splits)

lemma cached_property_first:
  "func (this inst) = Inr v \<Longrightarrow> stored inst name = None \<Longrightarrow>
   cached_property name func inst = (r, inst') \<Longrightarrow>
   r = Inr v \<and> stored inst' name = Some v \<and> evals inst' name = Suc (evals inst name)"
  by (auto simp: cached_property_def Let_def)

lemma cached_property_again:
  "stored inst name = Some v \<Longrightarrow> cached_property name func inst = (r, inst') \<Longrightarrow>
   r = Inr v \<and> inst' = inst"
  by (auto simp: cached_property_def)

text \<open>
  The state of one attribute whose function returns \<open>v\<close>: either never accessed, or computed
  once and stored.
\<close>

lemma accesses_attribute:
  assumes "props k (this inst) = Inr v"
    and "accesses props ks inst = (rs, inst')"
    and "stored inst k = None \<and> evals inst k = 0 \<or> stored inst k = Some v \<and> evals inst k = 1"
  shows "this inst' = this inst \<and> length rs = length ks \<and>
         (\<forall>n < length ks. ks ! n = k \<longrightarrow> rs ! n = Inr v) \<and>
         (if k \<in> set ks then stored inst' k = Some v \<and> evals inst' k = 1
          else stored inst' k = stored inst k \<and> evals inst' k = evals inst k)"
  using assms
proof (induction ks arbitrary: inst rs)
  case Nil
  then show ?case by auto
next
  case (Cons a ks)
  obtain r mid where step: "cached_property a (props a) inst = (r, mid)"
    by (cases "cached_property a (props a) inst")
  obtain rs' where rest: "accesses props ks mid = (rs', inst')" and rs: "rs = r # rs'"
    using Cons.prems(2) step by (auto split: prod.splits)
  have this_mid: "this mid = this inst"
    using step by (rule cached_property_this)
  show ?case
  proof (cases "a = k")
    case True
    have first: "r = Inr v \<and> stored mid k = Some v \<and> evals mid k = 1"
    proof (cases "stored inst k")
      case None
      with Cons.prems(3) have "evals inst k = 0"
        by simp
      with cached_property_first [OF _ None, of "props k" v r mid] Cons.prems(1) step True
      show ?thesis
        by simp
    next
      case (Some w)
      with Cons.prems(3) have "stored inst k = Some v" and "evals inst k = 1"
        by simp_all
      with cached_property_again [of inst k v "props k" r mid] step True show ?thesis
        by simp
    qed
    with Cons.IH [OF _ rest] Cons.prems(1) this_mid
    have ih: "this inst' = this mid \<and> length rs' = length ks \<and>
        (\<forall>n < length ks. ks ! n = k \<longrightarrow> rs' ! n = Inr v) \<and>
        stored inst' k = Some v \<and> evals inst' k = 1"
      by (simp split: if_splits)
    with first this_mid rs True show ?thesis
      by (auto simp: nth_Cons split: nat.splits)
  next
    case False
    then have same: "stored mid k = stored inst k \<and> evals mid k = evals inst k"
      using cached_property_other [OF step, of k] by simp
    with Cons.IH [OF _ rest] Cons.prems(1,3) this_mid
    have ih: "this inst' = this mid \<and> length rs' = length ks \<and>
        (\<forall>n < length ks. ks ! n = k \<longrightarrow> rs' ! n = Inr v) \<and>
        (if k \<in> set ks then stored inst' k = Some v \<and> evals inst' k = 1
         else stored inst' k = stored mid k \<and> evals inst' k = evals mid k)"
      by simp
    with same this_mid rs False show ?thesis
      by (auto simp: nth_Cons split: nat.splits)
  qed
qed

text \<open>
  Claim C8: on an instance, for every cached property whose function returns a value \<open>v\<close>,
  and every sequence of accesses to the cached properties of that instance, the function is
  evaluated at most once (once if the property is accessed at all); the first access stores
  \<open>v\<close>, and every access to the property, the first and each later one, returns \<open>v\<close>.
\<close>

theorem cached_property_computed_once:
  fixes props :: "'k \<Rightarrow> obj \<Rightarrow> error + 'v"
  assumes "props k x = Inr v"
    and "accesses props ks (fresh x) = (rs, inst')"
  shows "evals inst' k \<le> 1 \<and>
         evals inst' k = (if k \<in> set ks then 1 else 0) \<and>
         stored inst' k = (if k \<in> set ks then Some v else None) \<and>
         length rs = length ks \<and>
         (\<forall>n < length ks. ks ! n = k \<longrightarrow> rs ! n = Inr v)"
proof -
  have "this (fresh x :: ('k, 'v) entity) = x"
    and "stored (fresh x :: ('k, 'v) entity) k = None"
    and "evals (fresh x :: ('k, 'v) entity) k = 0"
    by (simp_all add: fresh_def)
  with accesses_attribute [of props k "fresh x" v ks rs inst'] assms show ?thesis
    by (simp split: if_splits)
qed

theorem cached_property_computed_once_witness:
  "evals (snd (accesses (Message_cached (\<lambda>t. Inr t))
                 [is_reply, author, is_reply, references, is_reply]
                 (fresh \<lparr>cls = Message,
                         data = JObj [(''id'', JStr ''2''), (''sender'', JObj [(''id'', JInt 9)]),
                                      (''metadata'', JObj [(''original_message'',
                                                            JObj [(''id'', JStr ''1'')])])]\<rparr>)))
     is_reply = 1 \<and>
   fst (accesses (Message_cached (\<lambda>t. Inr t))
          [is_reply, author, is_reply, references, is_reply]
          (fresh \<lparr>cls = Message,
                  data = JObj [(''id'', JStr ''2''), (''sender'', JObj [(''id'', JInt 9)]),
                               (''metadata'', JObj [(''original_message'',
                                                     JObj [(''id'', JStr ''1'')])])]\<rparr>)) ! 4
     = Inr (Bool True)"
  using cached_property_computed_once
    [of "Message_cached (\<lambda>t. Inr t)" is_reply
        "\<lparr>cls = Message,
          data = JObj [(''id'', JStr ''2''), (''sender'', JObj [(''id'', JInt 9)]),
                       (''metadata'', JObj [(''original_message'',
                                             JObj [(''id'', JStr ''1'')])])]\<rparr>"
        "Bool True"
        "[is_reply, author, is_reply, references, is_reply]"
        "fst (accesses (Message_cached (\<lambda>t. Inr t))
               [is_reply, author, is_reply, references, is_reply]
               (fresh \<lparr>cls = Message,
                  data = JObj [(''id'', JStr ''2''), (''sender'', JObj [(''id'', JInt 9)]),
                               (''metadata'', JObj [(''original_message'',
                                                     JObj [(''id'', JStr ''1'')])])]\<rparr>))"
        "snd (accesses (Message_cached (\<lambda>t. Inr t))
               [is_reply, author, is_reply, references, is_reply]
               (fresh \<lparr>cls = Message,
                  data = JObj [(''id'', JStr ''2''), (''sender'', JObj [(''id'', JInt 9)]),
                               (''metadata'', JObj [(''original_message'',
                                                     JObj [(''id'', JStr ''1'')])])]\<rparr>))"]
  by (simp add: Message_is_reply_def)

section \<open>The read path, step by step\<close>

lemma poll_event_decoded:
  assumes "incoming ws = f # fs"
    and "decode loads (Text f) = Inr (raw_data, payload, event)"
    and "match_event event payload
           (dispatch ''raw_payload_receive'' [Json raw_data]
             (dispatch ''payload_receive'' [Json event, Json payload] c)) = (r, c')"
  shows "poll_event loads c ws = (r, c', ws\<lparr>incoming := fs\<rparr>)"
  using assms by (simp add: poll_event_def receive_def)

lemma poll_event_undecoded:
  assumes "incoming ws = f # fs" and "decode loads (Text f) = Inl e"
  shows "poll_event loads c ws = (Inl e, c, ws\<lparr>incoming := fs\<rparr>)"
  using assms by (simp add: poll_event_def receive_def)

lemma start_closed: "incoming ws = [] \<Longrightarrow> start loads c ws = (Inr (), c, ws)"
  by (simp add: start.simps closed_def)

lemma start_raised:
  assumes "incoming ws \<noteq> []" and "poll_event loads c ws = (Inl e, c', ws')"
  shows "start loads c ws = (Inl e, c', ws')"
  using assms by (subst start.simps) (simp add: closed_def)

lemma start_returned:
  assumes "incoming ws \<noteq> []" and "poll_event loads c ws = (Inr u, c', ws')"
  shows "start loads c ws = start loads c' ws'"
  using assms by (subst start.simps) (simp add: closed_def)

lemma dispatched_generic:
  "dispatched (dispatch ''raw_payload_receive'' [Json raw_data]
                (dispatch ''payload_receive'' [Json event, Json payload] c)) =
     dispatched c @
     [(''payload_receive'', [Json event, Json payload]), (''raw_payload_receive'', [Json raw_data])]"
  by (simp add: dispatch_def)

lemma dispatch_fields:
  "watched_users (dispatch name args c) = watched_users c"
  "heap (dispatch name args c) = heap c"
  "dispatched (dispatch name args c) = dispatched c @ [(name, args)]"
  by (simp_all add: dispatch_def)

lemma match_event_FollowersUpdated:
  "match_event (JStr (app_event ''FollowersUpdated'')) payload c = followers_updated payload c"
  by (simp add: match_event_def app_event_def)

subsection \<open>The counter of the tracked user\<close>

lemma iadd_followers_count_int:
  assumes "getitem (heap c user) ''followers_count'' = Inr (JInt n)"
  shows "\<exists>c'. iadd_followers_count user d c = Inr c' \<and>
              getitem (heap c' user) ''followers_count'' = Inr (JInt (n + d)) \<and>
              (\<forall>r. r \<noteq> user \<longrightarrow> heap c' r = heap c r) \<and>
              watched_users c' = watched_users c \<and> dispatched c' = dispatched c"
proof -
  from assms obtain kvs where kvs: "heap c user = JObj kvs"
    by (auto dest: getitem_Inr_dict)
  let ?d = "JObj (AList.update ''followers_count'' (JInt (n + d)) kvs)"
  have "iadd_followers_count user d c = Inr (c\<lparr>heap := (heap c)(user := ?d)\<rparr>)"
    using assms kvs by (simp add: iadd_followers_count_def)
  moreover have "getitem ?d ''followers_count'' = Inr (JInt (n + d))"
    by (simp add: update_conv')
  ultimately show ?thesis
    by simp
qed

lemma followers_updated_tracked:
  assumes "getitem payload ''channel_id'' = Inr k"
    and "watched_getitem (watched_users c) k = Inr user"
    and "getitem payload ''followed'' = Inr v"
    and "getitem (heap c user) ''followers_count'' = Inr (JInt n)"
  shows "\<exists>c'. followers_updated payload c = (Inr (), c') \<and>
              dispatched c' =
                dispatched c @ [(if v = JBool True then ''follow'' else ''unfollow'', [User user])] \<and>
              getitem (heap c' user) ''followers_count'' =
                Inr (JInt (if v = JBool True then n + 1 else n - 1)) \<and>
              (\<forall>r. r \<noteq> user \<longrightarrow> heap c' r = heap c r) \<and>
              watched_users c' = watched_users c"
proof (cases "v = JBool True")
  case True
  from iadd_followers_count_int [OF assms(4), of 1] obtain c1
    where "iadd_followers_count user 1 c = Inr c1"
      and "getitem (heap c1 user) ''followers_count'' = Inr (JInt (n + 1))"
      and "\<forall>r. r \<noteq> user \<longrightarrow> heap c1 r = heap c r"
      and "watched_users c1 = watched_users c" and "dispatched c1 = dispatched c"
    by blast
  with True assms(1-3) show ?thesis
    by (simp add: followers_updated_def dispatch_fields)
next
  case False
  from iadd_followers_count_int [OF assms(4), of "- 1"] obtain c1
    where "iadd_followers_count user (- 1) c = Inr c1"
      and "getitem (heap c1 user) ''followers_count'' = Inr (JInt (n + - 1))"
      and "\<forall>r. r \<noteq> user \<longrightarrow> heap c1 r = heap c r"
      and "watched_users c1 = watched_users c" and "dispatched c1 = dispatched c"
    by blast
  with False assms(1-3) show ?thesis
    by (simp add: followers_updated_def dispatch_fields)
qed

lemma poll_event_followers_updated:
  assumes "incoming ws = f # fs"
    and "decode loads (Text f) = Inr (raw_data, payload, JStr (app_event ''FollowersUpdated''))"
    and "getitem payload ''channel_id'' = Inr k"
    and "watched_getitem (watched_users c) k = Inr user"
    and "getitem payload ''followed'' = Inr v"
    and "getitem (heap c user) ''followers_count'' = Inr (JInt n)"
  shows "\<exists>c'. poll_event loads c ws = (Inr (), c', ws\<lparr>incoming := fs\<rparr>) \<and>
              dispatched c' =
                dispatched c @
                [(''payload_receive'', [Json (JStr (app_event ''FollowersUpdated'')), Json payload]),
                 (''raw_payload_receive'', [Json raw_data]),
                 (if v = JBool True then ''follow'' else ''unfollow'', [User user])] \<and>
              getitem (heap c' user) ''followers_count'' =
                Inr (JInt (if v = JBool True then n + 1 else n - 1)) \<and>
              (\<forall>r. r \<noteq> user \<longrightarrow> heap c' r = heap c r) \<and>
              watched_users c' = watched_users c"
proof -
  let ?g = "dispatch ''raw_payload_receive'' [Json raw_data]
              (dispatch ''payload_receive''
                 [Json (JStr (app_event ''FollowersUpdated'')), Json payload] c)"
  have "watched_getitem (watched_users ?g) k = Inr user"
    and "getitem (heap ?g user) ''followers_count'' = Inr (JInt n)"
    using assms(4,6) by (simp_all add: dispatch_fields)
  from followers_updated_tracked [OF assms(3) this(1) assms(5) this(2)] obtain c'
    where fu: "followers_updated payload ?g = (Inr (), c')"
      and d: "dispatched c' =
                dispatched ?g @ [(if v = JBool True then ''follow'' else ''unfollow'', [User user])]"
      and rest: "getitem (heap c' user) ''followers_count'' =
                   Inr (JInt (if v = JBool True then n + 1 else n - 1))"
        "\<forall>r. r \<noteq> user \<longrightarrow> heap c' r = heap ?g r" "watched_users c' = watched_users ?g"
    by blast
  from fu have "match_event (JStr (app_event ''FollowersUpdated'')) payload ?g = (Inr (), c')"
    by (simp add: match_event_FollowersUpdated)
  from poll_event_decoded [OF assms(1,2) this]
  have "poll_event loads c ws = (Inr (), c', ws\<lparr>incoming := fs\<rparr>)" .
  with d rest show ?thesis
    by (simp add: dispatch_fields)
qed

section \<open>Follows and unfollows: claims C5 and C9\<close>

text \<open>
  Claim C5: when a \<^verbatim>\<open>FollowersUpdated\<close> frame names, by \<^verbatim>\<open>channel_id\<close>, a tracked user whose
  \<^verbatim>\<open>followers_count\<close> is \<open>n\<close>, handling it with \<^verbatim>\<open>followed: true\<close> leaves \<open>n + 1\<close> in the
  counter of that same user object and dispatches \<^verbatim>\<open>follow\<close> carrying the object, and with
  \<^verbatim>\<open>followed: false\<close> it leaves \<open>n - 1\<close> and dispatches \<^verbatim>\<open>unfollow\<close> carrying it. The two
  generic notifications come first; no other user object and no tracking entry changes.
\<close>

theorem followers_updated_follow_unfollow:
  assumes "incoming ws = f # fs"
    and "decode loads (Text f) = Inr (raw_data, payload, JStr (app_event ''FollowersUpdated''))"
    and "getitem payload ''channel_id'' = Inr k"
    and "watched_getitem (watched_users c) k = Inr user"
    and "getitem payload ''followed'' = Inr (JBool followed)"
    and "getitem (heap c user) ''followers_count'' = Inr (JInt n)"
  shows "\<exists>c'. poll_event loads c ws = (Inr (), c', ws\<lparr>incoming := fs\<rparr>) \<and>
              dispatched c' =
                dispatched c @
                [(''payload_receive'', [Json (JStr (app_event ''FollowersUpdated'')), Json payload]),
                 (''raw_payload_receive'', [Json raw_data]),
                 (if followed then ''follow'' else ''unfollow'', [User user])] \<and>
              getitem (heap c' user) ''followers_count'' =
                Inr (JInt (if followed then n + 1 else n - 1)) \<and>
              (\<forall>r. r \<noteq> user \<longrightarrow> heap c' r = heap c r) \<and>
              watched_users c' = watched_users c"
  using poll_event_followers_updated [OF assms] by simp

theorem followers_updated_follow_unfollow_witness:
  \<open>(\<exists>c'. poll_event json_loads (tracking 3)
            (delivering [envelope (app_event ''FollowersUpdated'')
                           ''{"channel_id":5,"followed":true}'']) = (Inr (), c', delivering []) \<and>
         map fst (dispatched c') = [''payload_receive'', ''raw_payload_receive'', ''follow''] \<and>
         last (dispatched c') = (''follow'', [User 0]) \<and>
         getitem (heap c' 0) ''followers_count'' = Inr (JInt 4)) \<and>
   (\<exists>c'. poll_event json_loads (tracking 4)
            (delivering [envelope (app_event ''FollowersUpdated'')
                           ''{"channel_id":5,"followed":false}'']) = (Inr (), c', delivering []) \<and>
         map fst (dispatched c') = [''payload_receive'', ''raw_payload_receive'', ''unfollow''] \<and>
         last (dispatched c') = (''unfollow'', [User 0]) \<and>
         getitem (heap c' 0) ''followers_count'' = Inr (JInt 3))\<close>
proof -
  let ?tag = "app_event ''FollowersUpdated''"
  let ?t = \<open>''{"channel_id":5,"followed":true}''\<close>
  let ?f = \<open>''{"channel_id":5,"followed":false}''\<close>
  have dt: "decode json_loads (Text (envelope ?tag ?t)) =
      Inr (JObj [(''event'', JStr ?tag), (''data'', JStr ?t)],
           JObj [(''channel_id'', JInt 5), (''followed'', JBool True)], JStr ?tag)"
    by code_simp
  have df: "decode json_loads (Text (envelope ?tag ?f)) =
      Inr (JObj [(''event'', JStr ?tag), (''data'', JStr ?f)],
           JObj [(''channel_id'', JInt 5), (''followed'', JBool False)], JStr ?tag)"
    by code_simp
  have inc: "incoming (delivering [x]) = x # []" for x
    by (simp add: delivering_def)
  have tracked: "watched_getitem (watched_users (tracking n)) (JInt 5) = Inr 0"
    and count: "getitem (heap (tracking n) 0) ''followers_count'' = Inr (JInt n)" for n
    by (simp_all add: tracking_def)
  have "\<exists>c'. poll_event json_loads (tracking 3) (delivering [envelope ?tag ?t])
                = (Inr (), c', delivering []) \<and>
              map fst (dispatched c') = [''payload_receive'', ''raw_payload_receive'', ''follow''] \<and>
              last (dispatched c') = (''follow'', [User 0]) \<and>
              getitem (heap c' 0) ''followers_count'' = Inr (JInt 4)"
    using followers_updated_follow_unfollow [OF inc dt _ tracked _ count, of True 3]
    by (auto simp: delivering_def tracking_def)
  moreover
  have "\<exists>c'. poll_event json_loads (tracking 4) (delivering [envelope ?tag ?f])
                = (Inr (), c', delivering []) \<and>
              map fst (dispatched c') = [''payload_receive'', ''raw_payload_receive'', ''unfollow''] \<and>
              last (dispatched c') = (''unfollow'', [User 0]) \<and>
              getitem (heap c' 0) ''followers_count'' = Inr (JInt 3)"
    using followers_updated_follow_unfollow [OF inc df _ tracked _ count, of False 4]
    by (auto simp: delivering_def tracking_def)
  ultimately show ?thesis
    by blast
qed

text \<open>
  Claim C9: on a tracked channel, a \<^verbatim>\<open>followed\<close> field holding any value other than the
  boolean \<^verbatim>\<open>True\<close> (also a truthy one, such as 1 or the string \<^verbatim>\<open>"true"\<close>) selects the other
  branch: the counter of the tracked user goes down by 1 and \<^verbatim>\<open>unfollow\<close> is dispatched.
  Only \<^verbatim>\<open>True\<close> itself selects the increment and \<^verbatim>\<open>follow\<close>.
\<close>

theorem followed_is_True_only:
  assumes "incoming ws = f # fs"
    and "decode loads (Text f) = Inr (raw_data, payload, JStr (app_event ''FollowersUpdated''))"
    and "getitem payload ''channel_id'' = Inr k"
    and "watched_getitem (watched_users c) k = Inr user"
    and "getitem payload ''followed'' = Inr v"
    and "getitem (heap c user) ''followers_count'' = Inr (JInt n)"
  shows "\<exists>c'. poll_event loads c ws = (Inr (), c', ws\<lparr>incoming := fs\<rparr>) \<and>
              (v \<noteq> JBool True \<longrightarrow>
                 last (dispatched c') = (''unfollow'', [User user]) \<and>
                 getitem (heap c' user) ''followers_count'' = Inr (JInt (n - 1))) \<and>
              (v = JBool True \<longrightarrow>
                 last (dispatched c') = (''follow'', [User user]) \<and>
                 getitem (heap c' user) ''followers_count'' = Inr (JInt (n + 1))) \<and>
              length (dispatched c') = length (dispatched c) + 3"
proof -
  from poll_event_followers_updated [OF assms] obtain c'
    where "poll_event loads c ws = (Inr (), c', ws\<lparr>incoming := fs\<rparr>)"
      and "dispatched c' =
             dispatched c @
             [(''payload_receive'', [Json (JStr (app_event ''FollowersUpdated'')), Json payload]),
              (''raw_payload_receive'', [Json raw_data]),
              (if v = JBool True then ''follow'' else ''unfollow'', [User user])]"
      and "getitem (heap c' user) ''followers_count'' =
             Inr (JInt (if v = JBool True then n + 1 else n - 1))"
    by blast
  then show ?thesis
    by auto
qed

theorem followed_is_True_only_witness:
  \<open>(\<exists>c'. poll_event json_loads (tracking 4)
            (delivering [envelope (app_event ''FollowersUpdated'')
                           ''{"channel_id":5,"followed":1}'']) = (Inr (), c', delivering []) \<and>
         last (dispatched c') = (''unfollow'', [User 0]) \<and>
         getitem (heap c' 0) ''followers_count'' = Inr (JInt 3)) \<and>
   (\<exists>c'. poll_event json_loads (tracking 4)
            (delivering [envelope (app_event ''FollowersUpdated'')
                           ''{"channel_id":5,"followed":"true"}'']) = (Inr (), c', delivering []) \<and>
         last (dispatched c') = (''unfollow'', [User 0]) \<and>
         getitem (heap c' 0) ''followers_count'' = Inr (JInt 3))\<close>
proof -
  let ?tag = "app_event ''FollowersUpdated''"
  let ?one = \<open>''{"channel_id":5,"followed":1}''\<close>
  let ?str = \<open>''{"channel_id":5,"followed":"true"}''\<close>
  have d1: "decode json_loads (Text (envelope ?tag ?one)) =
      Inr (JObj [(''event'', JStr ?tag), (''data'', JStr ?one)],
           JObj [(''channel_id'', JInt 5), (''followed'', JInt 1)], JStr ?tag)"
    by code_simp
  have d2: "decode json_loads (Text (envelope ?tag ?str)) =
      Inr (JObj [(''event'', JStr ?tag), (''data'', JStr ?str)],
           JObj [(''channel_id'', JInt 5), (''followed'', JStr ''true'')], JStr ?tag)"
    by code_simp
  have inc: "incoming (delivering [x]) = x # []" for x
    by (simp add: delivering_def)
  have tracked: "watched_getitem (watched_users (tracking n)) (JInt 5) = Inr 0"
    and count: "getitem (heap (tracking n) 0) ''followers_count'' = Inr (JInt n)" for n
    by (simp_all add: tracking_def)
  have "\<exists>c'. poll_event json_loads (tracking 4) (delivering [envelope ?tag ?one])
                = (Inr (), c', delivering []) \<and>
              last (dispatched c') = (''unfollow'', [User 0]) \<and>
              getitem (heap c' 0) ''followers_count'' = Inr (JInt 3)"
    using followed_is_True_only [OF inc d1 _ tracked _ count, of "JInt 1" 4]
    by (auto simp: delivering_def)
  moreover
  have "\<exists>c'. poll_event json_loads (tracking 4) (delivering [envelope ?tag ?str])
                = (Inr (), c', delivering []) \<and>
              last (dispatched c') = (''unfollow'', [User 0]) \<and>
              getitem (heap c' 0) ''followers_count'' = Inr (JInt 3)"
    using followed_is_True_only [OF inc d2 _ tracked _ count, of "JStr ''true''" 4]
    by (auto simp: delivering_def)
  ultimately show ?thesis
    by blast
qed

section \<open>An untracked channel: claim C6\<close>

lemma followers_updated_untracked:
  assumes "getitem payload ''channel_id'' = Inr (JInt i)" and "watched_users c i = None"
  shows "followers_updated payload c = (Inl KeyError, c)"
  using assms by (simp add: followers_updated_def)

text \<open>
  Claim C6: when the \<^verbatim>\<open>channel_id\<close> of a \<^verbatim>\<open>FollowersUpdated\<close> payload is not a key of the
  tracked users, the handler raises \<^verbatim>\<open>KeyError\<close>; the exception leaves \<^verbatim>\<open>poll_event\<close> and
  the read loop \<^verbatim>\<open>start\<close>, which reads no further frame. Only the two generic notifications
  have been dispatched, neither \<^verbatim>\<open>follow\<close> nor \<^verbatim>\<open>unfollow\<close>, and no user object has changed.
\<close>

theorem followers_updated_untracked_raises:
  assumes "incoming ws = f # fs"
    and "decode loads (Text f) = Inr (raw_data, payload, JStr (app_event ''FollowersUpdated''))"
    and "getitem payload ''channel_id'' = Inr (JInt i)"
    and "watched_users c i = None"
  shows "\<exists>c'. poll_event loads c ws = (Inl KeyError, c', ws\<lparr>incoming := fs\<rparr>) \<and>
              start loads c ws = (Inl KeyError, c', ws\<lparr>incoming := fs\<rparr>) \<and>
              dispatched c' =
                dispatched c @
                [(''payload_receive'', [Json (JStr (app_event ''FollowersUpdated'')), Json payload]),
                 (''raw_payload_receive'', [Json raw_data])] \<and>
              heap c' = heap c \<and> watched_users c' = watched_users c"
proof -
  let ?g = "dispatch ''raw_payload_receive'' [Json raw_data]
              (dispatch ''payload_receive''
                 [Json (JStr (app_event ''FollowersUpdated'')), Json payload] c)"
  have "watched_users ?g i = None"
    using assms(4) by (simp add: dispatch_fields)
  with assms(3) have "followers_updated payload ?g = (Inl KeyError, ?g)"
    by (rule followers_updated_untracked)
  then have "match_event (JStr (app_event ''FollowersUpdated'')) payload ?g = (Inl KeyError, ?g)"
    by (simp add: match_event_FollowersUpdated)
  from poll_event_decoded [OF assms(1,2) this]
  have p: "poll_event loads c ws = (Inl KeyError, ?g, ws\<lparr>incoming := fs\<rparr>)" .
  moreover from assms(1) have "incoming ws \<noteq> []"
    by simp
  from start_raised [OF this p]
  have "start loads c ws = (Inl KeyError, ?g, ws\<lparr>incoming := fs\<rparr>)" .
  ultimately show ?thesis
    by (simp add: dispatch_fields)
qed

theorem followers_updated_untracked_raises_witness:
  \<open>\<exists>c'. start json_loads (tracking 3)
           (delivering [envelope (app_event ''FollowersUpdated'')
                          ''{"channel_id":6,"followed":true}'',
                        envelope (app_event ''FollowersUpdated'')
                          ''{"channel_id":5,"followed":true}''])
         = (Inl KeyError, c',
            delivering [envelope (app_event ''FollowersUpdated'')
                          ''{"channel_id":5,"followed":true}'']) \<and>
        map fst (dispatched c') = [''payload_receive'', ''raw_payload_receive''] \<and>
        heap c' = heap (tracking 3)\<close>
proof -
  let ?tag = "app_event ''FollowersUpdated''"
  let ?six = \<open>''{"channel_id":6,"followed":true}''\<close>
  let ?five = \<open>''{"channel_id":5,"followed":true}''\<close>
  have d: "decode json_loads (Text (envelope ?tag ?six)) =
      Inr (JObj [(''event'', JStr ?tag), (''data'', JStr ?six)],
           JObj [(''channel_id'', JInt 6), (''followed'', JBool True)], JStr ?tag)"
    by code_simp
  have inc: "incoming (delivering [x, y]) = x # [y]" for x y
    by (simp add: delivering_def)
  have untracked: "watched_users (tracking 3) 6 = None"
    by (simp add: tracking_def)
  show ?thesis
    using followers_updated_untracked_raises
      [OF inc [of "envelope ?tag ?six" "envelope ?tag ?five"] d _ untracked]
    by (auto simp: delivering_def tracking_def)
qed

section \<open>Decoding failures: claim C1\<close>

lemma decode_outer_malformed: "loads f = Inl e \<Longrightarrow> decode loads (Text f) = Inl e"
  by (simp add: decode_def)

lemma decode_inner_malformed:
  "loads f = Inr raw_data \<Longrightarrow> getitem raw_data ''data'' = Inr (JStr s) \<Longrightarrow> loads s = Inl e \<Longrightarrow>
   decode loads (Text f) = Inl e"
  by (simp add: decode_def)

lemma start_undecoded:
  assumes "incoming ws = f # fs" and "decode loads (Text f) = Inl e"
  shows "start loads c ws = (Inl e, c, ws\<lparr>incoming := fs\<rparr>)"
proof -
  from assms(1) have "incoming ws \<noteq> []"
    by simp
  from start_raised [OF this poll_event_undecoded [OF assms]] show ?thesis .
qed

text \<open>
  Claim C1, as the code has it. Neither \<^verbatim>\<open>poll_event\<close> nor \<^verbatim>\<open>start\<close> handles an exception.
  For every frame whose outer envelope is malformed, or whose inner \<^verbatim>\<open>data\<close> string is
  malformed JSON, the decoder's exception is raised in \<^verbatim>\<open>poll_event\<close> before anything is
  dispatched, and it is the exception of the read loop: \<^verbatim>\<open>start\<close> ends with it and the
  frames after the malformed one stay unread.
\<close>

theorem decode_failure_ends_read_loop:
  assumes "incoming ws = f # fs"
    and "loads f = Inl e \<or>
         (\<exists>raw_data s. loads f = Inr raw_data \<and> getitem raw_data ''data'' = Inr (JStr s) \<and>
                       loads s = Inl e)"
  shows "poll_event loads c ws = (Inl e, c, ws\<lparr>incoming := fs\<rparr>) \<and>
         start loads c ws = (Inl e, c, ws\<lparr>incoming := fs\<rparr>)"
proof -
  from assms(2) have "decode loads (Text f) = Inl e"
    by (auto simp: decode_outer_malformed decode_inner_malformed)
  with assms(1) show ?thesis
    by (simp add: poll_event_undecoded start_undecoded)
qed

theorem decode_failure_ends_read_loop_witness:
  \<open>start json_loads (tracking 3)
      (delivering [''{"event":'', envelope (app_event ''PinnedMessageDeletedEvent'') ''{}''])
     = (Inl JSONDecodeError, tracking 3,
        delivering [envelope (app_event ''PinnedMessageDeletedEvent'') ''{}'']) \<and>
   start json_loads (tracking 3)
      (delivering [envelope (app_event ''ChatMessageEvent'') ''{"id":"1",'',
                   envelope (app_event ''PinnedMessageDeletedEvent'') ''{}''])
     = (Inl JSONDecodeError, tracking 3,
        delivering [envelope (app_event ''PinnedMessageDeletedEvent'') ''{}''])\<close>
proof -
  let ?next = \<open>envelope (app_event ''PinnedMessageDeletedEvent'') ''{}''\<close>
  let ?cut = \<open>''{"event":''\<close>
  let ?inner = \<open>''{"id":"1",''\<close>
  let ?bad = "envelope (app_event ''ChatMessageEvent'') ?inner"
  have inc: "incoming (delivering [x, y]) = x # [y]" for x y
    by (simp add: delivering_def)
  have outer: "json_loads ?cut = Inl JSONDecodeError"
    by code_simp
  have raw: "json_loads ?bad =
      Inr (JObj [(''event'', JStr (app_event ''ChatMessageEvent'')), (''data'', JStr ?inner)])"
    by code_simp
  have inner: "json_loads ?inner = Inl JSONDecodeError"
    by code_simp
  have "start json_loads (tracking 3) (delivering [?cut, ?next])
          = (Inl JSONDecodeError, tracking 3, delivering [?next])"
    using decode_failure_ends_read_loop
      [OF inc [of ?cut ?next], of json_loads JSONDecodeError "tracking 3"] outer
    by (simp add: delivering_def)
  moreover
  have "start json_loads (tracking 3) (delivering [?bad, ?next])
          = (Inl JSONDecodeError, tracking 3, delivering [?next])"
    using decode_failure_ends_read_loop
      [OF inc [of ?bad ?next], of json_loads JSONDecodeError "tracking 3"] raw inner
    by (simp add: delivering_def)
  ultimately show ?thesis
    by simp
qed

text \<open>
  Claim C1 as stated fails. A frame whose inner \<^verbatim>\<open>data\<close> is the cut-off text \<^verbatim>\<open>{"id":"1",\<close>
  is followed by a well-formed frame; the read loop ends with the decoder's exception, the
  second frame is still waiting, and nothing was dispatched for it.
\<close>

theorem malformed_inner_json_leaves_start:
  \<open>start json_loads (tracking 3)
      (delivering [envelope (app_event ''ChatMessageEvent'') ''{"id":"1",'',
                   envelope (app_event ''PinnedMessageDeletedEvent'') ''{}''])
     = (Inl JSONDecodeError, tracking 3,
        delivering [envelope (app_event ''PinnedMessageDeletedEvent'') ''{}'']) \<and>
   dispatched (tracking 3) = []\<close>
proof -
  let ?next = \<open>envelope (app_event ''PinnedMessageDeletedEvent'') ''{}''\<close>
  let ?inner = \<open>''{"id":"1",''\<close>
  let ?bad = "envelope (app_event ''ChatMessageEvent'') ?inner"
  have "decode json_loads (Text ?bad) = Inl JSONDecodeError"
    by code_simp
  moreover have "incoming (delivering [?bad, ?next]) = ?bad # [?next]"
    by (simp add: delivering_def)
  ultimately have "start json_loads (tracking 3) (delivering [?bad, ?next])
      = (Inl JSONDecodeError, tracking 3, (delivering [?bad, ?next])\<lparr>incoming := [?next]\<rparr>)"
    by (rule start_undecoded [rotated])
  then show ?thesis
    by (simp add: delivering_def tracking_def)
qed

section \<open>The generic notifications: claim C3\<close>

lemma bind_Inr: "bind m g = Inr y \<Longrightarrow> \<exists>x. m = Inr x \<and> g x = Inr y"
  by (cases m) simp_all

lemma iadd_followers_count_dispatched:
  "iadd_followers_count user n c = Inr c' \<Longrightarrow> dispatched c' = dispatched c"
  by (auto simp: iadd_followers_count_def dest!: bind_Inr)

lemma followers_updated_dispatched:
  assumes "followers_updated payload c = (r, c')"
  shows "\<exists>named. dispatched c' = dispatched c @ named \<and> length named \<le> 1"
  using assms
  by (auto simp: followers_updated_def dispatch_fields
      dest: iadd_followers_count_dispatched split: sum.splits if_splits)

lemma match_event_dispatched:
  assumes "match_event event payload c = (r, c')"
  shows "\<exists>named. dispatched c' = dispatched c @ named \<and> length named \<le> 1"
  using assms followers_updated_dispatched [of payload c r c']
  by (auto simp: match_event_def dispatch_fields split: if_splits)

lemma match_event_unknown:
  assumes "event \<notin> set (map (\<lambda>name. JStr (app_event name))
             [''ChatMessageEvent'', ''MessageDeletedEvent'', ''PinnedMessageCreatedEvent'',
              ''PinnedMessageDeletedEvent'', ''UserBannedEvent'', ''UserUnbannedEvent'',
              ''StreamerIsLive'', ''FollowersUpdated''])"
  shows "match_event event payload c = (Inr (), c)"
  using assms by (simp add: match_event_def)

text \<open>
  Claim C3, as the code has it. For every successfully decoded frame the dispatcher emits,
  unconditionally and before anything else, \<^verbatim>\<open>payload_receive\<close> carrying the event name and
  the inner payload and then \<^verbatim>\<open>raw_payload_receive\<close> carrying the outer envelope (its
  \<^verbatim>\<open>data\<close> still the undecoded string), in that order; at most one named notification
  follows. When the event tag is not one of the eight known tags, exactly these two are
  emitted, no named one, and \<^verbatim>\<open>poll_event\<close> returns normally.
\<close>

theorem generic_notifications_first:
  assumes "incoming ws = f # fs"
    and "decode loads (Text f) = Inr (raw_data, payload, event)"
  shows "\<exists>r c' named.
           poll_event loads c ws = (r, c', ws\<lparr>incoming := fs\<rparr>) \<and>
           dispatched c' =
             dispatched c @
             [(''payload_receive'', [Json event, Json payload]),
              (''raw_payload_receive'', [Json raw_data])] @ named \<and>
           length named \<le> 1 \<and>
           (event \<notin> set (map (\<lambda>name. JStr (app_event name))
              [''ChatMessageEvent'', ''MessageDeletedEvent'', ''PinnedMessageCreatedEvent'',
               ''PinnedMessageDeletedEvent'', ''UserBannedEvent'', ''UserUnbannedEvent'',
               ''StreamerIsLive'', ''FollowersUpdated'']) \<longrightarrow>
            named = [] \<and> r = Inr ())"
proof -
  let ?g = "dispatch ''raw_payload_receive'' [Json raw_data]
              (dispatch ''payload_receive'' [Json event, Json payload] c)"
  obtain r c' where m: "match_event event payload ?g = (r, c')"
    by (cases "match_event event payload ?g")
  from match_event_dispatched [OF m] obtain named
    where named: "dispatched c' = dispatched ?g @ named" "length named \<le> 1"
    by blast
  have "named = [] \<and> r = Inr ()"
    if "event \<notin> set (map (\<lambda>name. JStr (app_event name))
              [''ChatMessageEvent'', ''MessageDeletedEvent'', ''PinnedMessageCreatedEvent'',
               ''PinnedMessageDeletedEvent'', ''UserBannedEvent'', ''UserUnbannedEvent'',
               ''StreamerIsLive'', ''FollowersUpdated''])"
    using match_event_unknown [OF that, of payload ?g] m named(1) by simp
  moreover from poll_event_decoded [OF assms m]
  have "poll_event loads c ws = (r, c', ws\<lparr>incoming := fs\<rparr>)" .
  moreover from named(1)
  have "dispatched c' =
          dispatched c @
          [(''payload_receive'', [Json event, Json payload]),
           (''raw_payload_receive'', [Json raw_data])] @ named"
    by (simp add: dispatched_generic)
  ultimately show ?thesis
    using named(2) by blast
qed

theorem generic_notifications_first_witness:
  \<open>\<exists>c'. poll_event json_loads (tracking 3)
           (delivering [envelope (app_event ''ChatroomUpdatedEvent'') ''{"id":5}''])
           = (Inr (), c', delivering []) \<and>
        dispatched c' =
          [(''payload_receive'',
            [Json (JStr (app_event ''ChatroomUpdatedEvent'')), Json (JObj [(''id'', JInt 5)])]),
           (''raw_payload_receive'',
            [Json (JObj [(''event'', JStr (app_event ''ChatroomUpdatedEvent'')),
                         (''data'', JStr ''{"id":5}'')])])]\<close>
proof -
  let ?tag = "app_event ''ChatroomUpdatedEvent''"
  let ?inner = \<open>''{"id":5}''\<close>
  have d: "decode json_loads (Text (envelope ?tag ?inner)) =
      Inr (JObj [(''event'', JStr ?tag), (''data'', JStr ?inner)], JObj [(''id'', JInt 5)],
           JStr ?tag)"
    by code_simp
  have inc: "incoming (delivering [x]) = x # []" for x
    by (simp add: delivering_def)
  have unknown: "JStr ?tag \<notin> set (map (\<lambda>name. JStr (app_event name))
              [''ChatMessageEvent'', ''MessageDeletedEvent'', ''PinnedMessageCreatedEvent'',
               ''PinnedMessageDeletedEvent'', ''UserBannedEvent'', ''UserUnbannedEvent'',
               ''StreamerIsLive'', ''FollowersUpdated''])"
    by (simp add: app_event_def)
  from generic_notifications_first [OF inc d, of "tracking 3"] unknown show ?thesis
    by (auto simp: delivering_def tracking_def)
qed

text \<open>
  Claim C3 as stated fails in the order: for a frame with a tag outside the table, the first
  notification is \<^verbatim>\<open>payload_receive\<close> and the second \<^verbatim>\<open>raw_payload_receive\<close>, not the
  reverse.
\<close>

theorem raw_payload_receive_is_second:
  \<open>map fst (dispatched (fst (snd (poll_event json_loads (tracking 3)
      (delivering [envelope (app_event ''ChatroomUpdatedEvent'') ''{"id":5}''])))))
     = [''payload_receive'', ''raw_payload_receive''] \<and>
   map fst (dispatched (fst (snd (poll_event json_loads (tracking 3)
      (delivering [envelope (app_event ''ChatroomUpdatedEvent'') ''{"id":5}''])))))
     \<noteq> [''raw_payload_receive'', ''payload_receive'']\<close>
proof -
  let ?tag = "app_event ''ChatroomUpdatedEvent''"
  let ?inner = \<open>''{"id":5}''\<close>
  let ?g = "dispatch ''raw_payload_receive''
              [Json (JObj [(''event'', JStr ?tag), (''data'', JStr ?inner)])]
              (dispatch ''payload_receive'' [Json (JStr ?tag), Json (JObj [(''id'', JInt 5)])]
                 (tracking 3))"
  have d: "decode json_loads (Text (envelope ?tag ?inner)) =
      Inr (JObj [(''event'', JStr ?tag), (''data'', JStr ?inner)], JObj [(''id'', JInt 5)],
           JStr ?tag)"
    by code_simp
  have inc: "incoming (delivering [envelope ?tag ?inner]) = envelope ?tag ?inner # []"
    by (simp add: delivering_def)
  have m: "match_event (JStr ?tag) (JObj [(''id'', JInt 5)]) ?g = (Inr (), ?g)"
    by (simp add: match_event_def app_event_def)
  from poll_event_decoded [OF inc d m]
  have "fst (snd (poll_event json_loads (tracking 3) (delivering [envelope ?tag ?inner]))) = ?g"
    by simp
  then show ?thesis
    by (simp add: dispatch_fields tracking_def)
qed

end
